theory Spec2Isabelle
  imports Complex_Main
begin

section \<open>Multi-axis tomography: rotation geometry and iterative component separation\<close>

text \<open>
  A shallow embedding of the geometry and reconstruction core of \<^verbatim>\<open>multi_axis.py\<close>.
  Floating-point numbers are read as exact reals; the values that NumPy produces
  without raising (\<^verbatim>\<open>inf\<close>, \<^verbatim>\<open>-inf\<close>, \<^verbatim>\<open>nan\<close>) are kept as one extra value where the
  code can produce them.  Every exception of the Python code is a value of type
  \<open>error\<close>.
\<close>

datatype error = TypeError | ValueError | IndexError | ZeroDivisionError

subsection \<open>Small vectors and matrices (\<^verbatim>\<open>np.dot\<close>)\<close>

type_synonym vec = "real list"
type_synonym mat = "real list list"

text \<open>\<^verbatim>\<open>np.dot\<close> of two 1-D arrays, of a 2-D with a 1-D array, and of two 2-D arrays.
  The source only applies it to the 3x3 and 3-element literals below, so the
  shape error of \<^verbatim>\<open>np.dot\<close> cannot occur.\<close>

definition dot_vv :: "vec \<Rightarrow> vec \<Rightarrow> real" where
  "dot_vv a b = sum_list (map2 (*) a b)"

definition dot_mv :: "mat \<Rightarrow> vec \<Rightarrow> vec" where
  "dot_mv m v = map (\<lambda>row. dot_vv row v) m"

definition column :: "mat \<Rightarrow> nat \<Rightarrow> vec" where
  "column m j = map (\<lambda>row. row ! j) m"

definition dot_mm :: "mat \<Rightarrow> mat \<Rightarrow> mat" where
  "dot_mm a b = map (\<lambda>row. map (\<lambda>j. dot_vv row (column b j)) [0..<length (hd b)]) a"

subsection \<open>\<^verbatim>\<open>rotation_matrix\<close>\<close>

text \<open>
  \<open>cos\<close> and \<open>sin\<close> are the real functions.  Binary floating point agrees with them
  exactly at 0 degrees (\<^verbatim>\<open>sin(0.0)\<close> is \<^verbatim>\<open>0.0\<close>, \<^verbatim>\<open>cos(0.0)\<close> is \<^verbatim>\<open>1.0\<close>) and in
  \<^verbatim>\<open>sin(90*pi/180)\<close>, which is \<^verbatim>\<open>1.0\<close>, but not in \<^verbatim>\<open>cos(90*pi/180)\<close>, which is about
  \<^verbatim>\<open>6.1e-17\<close> and not zero.  No statement below that turns on a weight being exactly
  zero takes that zero from a right angle.
\<close>

definition rotation_matrix :: "real \<Rightarrow> real \<Rightarrow> real \<Rightarrow> bool \<Rightarrow> mat" where
  "rotation_matrix ax ay az intrinsic =
     (let ax = ax * pi / 180;
          Cx = cos ax;
          Sx = sin ax;
          mrotx = [[1, 0, 0], [0, Cx, - Sx], [0, Sx, Cx]];
          ay = ay * pi / 180;
          Cy = cos ay;
          Sy = sin ay;
          mroty = [[Cy, 0, Sy], [0, 1, 0], [- Sy, 0, Cy]];
          az = az * pi / 180;
          Cz = cos az;
          Sz = sin az;
          mrotz = [[Cz, - Sz, 0], [Sz, Cz, 0], [0, 0, 1]]
      in if intrinsic then dot_mm (dot_mm mrotz mroty) mrotx
         else dot_mm (dot_mm mrotx mroty) mrotz)"

subsection \<open>\<^verbatim>\<open>get_astravec\<close> and \<^verbatim>\<open>generate_vectors\<close>\<close>

definition get_astravec :: "real \<Rightarrow> real \<Rightarrow> real \<Rightarrow> vec" where
  "get_astravec ax ay az =
     (let ay = - ay;
          d = [0, 0, 0];
          mrot = rotation_matrix ax ay az False;
          r = map (\<lambda>x. x * (- 1)) (dot_mv mrot [0, 0, 1]);
          u = dot_mv mrot [1, 0, 0];
          v = dot_mv mrot [0, 1, 0]
      in r @ d @ u @ v)"

definition generate_vectors :: "(real \<times> real \<times> real) list \<Rightarrow> vec list" where
  "generate_vectors angles = map (\<lambda>(ax, ay, az). get_astravec ax ay az) angles"

subsection \<open>\<^verbatim>\<open>calculate_A_contributions\<close>\<close>

text \<open>One row \<open>[nx, ny, nz]\<close> of the weight array, for one rotation triple.\<close>

definition A_contribution :: "real \<times> real \<times> real \<Rightarrow> vec" where
  "A_contribution a =
     (case a of (a0, a1, a2) \<Rightarrow>
        let mrot = rotation_matrix a0 a1 a2 True;
            nx = dot_mv mrot [1, 0, 0];
            ny = dot_mv mrot [0, 1, 0];
            nz = dot_mv mrot [0, 0, 1];
            nx = dot_vv nx [0, 0, 1];
            ny = dot_vv ny [0, 0, 1];
            nz = dot_vv nz [0, 0, 1]
        in [nx, ny, nz])"

definition calculate_A_contributions :: "(real \<times> real \<times> real) list \<Rightarrow> mat" where
  "calculate_A_contributions angles = map A_contribution angles"

subsection \<open>The rotation convention as the specification words it\<close>

text \<open>Elementary rotations about the three axes, from an angle in degrees, and the
  plain 3x3 matrix product and matrix-vector product written out entry by entry.\<close>

definition deg :: "real \<Rightarrow> real" where
  "deg a = a * pi / 180"

definition spec_Rx :: "real \<Rightarrow> mat" where
  "spec_Rx a = [[1, 0, 0], [0, cos (deg a), - sin (deg a)], [0, sin (deg a), cos (deg a)]]"

definition spec_Ry :: "real \<Rightarrow> mat" where
  "spec_Ry a = [[cos (deg a), 0, sin (deg a)], [0, 1, 0], [- sin (deg a), 0, cos (deg a)]]"

definition spec_Rz :: "real \<Rightarrow> mat" where
  "spec_Rz a = [[cos (deg a), - sin (deg a), 0], [sin (deg a), cos (deg a), 0], [0, 0, 1]]"

definition ent :: "mat \<Rightarrow> nat \<Rightarrow> nat \<Rightarrow> real" where
  "ent m i j = m ! i ! j"

definition mat_mul3 :: "mat \<Rightarrow> mat \<Rightarrow> mat" where
  "mat_mul3 a b =
     map (\<lambda>i. map (\<lambda>j. ent a i 0 * ent b 0 j + ent a i 1 * ent b 1 j + ent a i 2 * ent b 2 j)
                  [0, 1, 2]) [0, 1, 2]"

definition mat_vec3 :: "mat \<Rightarrow> real \<times> real \<times> real \<Rightarrow> vec" where
  "mat_vec3 m v =
     (case v of (x, y, z) \<Rightarrow>
        map (\<lambda>i. ent m i 0 * x + ent m i 1 * y + ent m i 2 * z) [0, 1, 2])"

definition spec_intrinsic :: "real \<Rightarrow> real \<Rightarrow> real \<Rightarrow> mat" where
  "spec_intrinsic ax ay az = mat_mul3 (mat_mul3 (spec_Rz az) (spec_Ry ay)) (spec_Rx ax)"

definition spec_extrinsic :: "real \<Rightarrow> real \<Rightarrow> real \<Rightarrow> mat" where
  "spec_extrinsic ax ay az = mat_mul3 (mat_mul3 (spec_Rx ax) (spec_Ry ay)) (spec_Rz az)"

definition row3 :: "mat \<Rightarrow> nat \<Rightarrow> vec" where
  "row3 m i = [ent m i 0, ent m i 1, ent m i 2]"

definition inner3 :: "vec \<Rightarrow> vec \<Rightarrow> real" where
  "inner3 a b = a ! 0 * b ! 0 + a ! 1 * b ! 1 + a ! 2 * b ! 2"

text \<open>The four 3-vectors of a projection vector \<open>[r, d, u, v]\<close>.\<close>

definition ray_of :: "vec \<Rightarrow> vec" where "ray_of p = take 3 p"
definition det_centre_of :: "vec \<Rightarrow> vec" where "det_centre_of p = take 3 (drop 3 p)"
definition det_u_of :: "vec \<Rightarrow> vec" where "det_u_of p = take 3 (drop 6 p)"
definition det_v_of :: "vec \<Rightarrow> vec" where "det_v_of p = take 3 (drop 9 p)"

section \<open>The angle scheme generator\<close>

subsection \<open>Python and NumPy primitives\<close>

text \<open>Sequencing of computations that may raise.\<close>

definition bindE :: "error + 'a \<Rightarrow> ('a \<Rightarrow> error + 'b) \<Rightarrow> error + 'b" where
  "bindE m f = (case m of Inl e \<Rightarrow> Inl e | Inr x \<Rightarrow> f x)"

text \<open>The \<^verbatim>\<open>num\<close> argument of \<^verbatim>\<open>np.linspace\<close> is a Python \<^verbatim>\<open>int\<close> or, where the source
  divides with \<^verbatim>\<open>/\<close> and does not convert, a Python \<^verbatim>\<open>float\<close>.\<close>

datatype count = IntCount int | FloatCount real

text \<open>Python's \<^verbatim>\<open>int(x)\<close> on a float: truncation towards zero.\<close>

definition py_int :: "real \<Rightarrow> int" where
  "py_int x = (if 0 \<le> x then \<lfloor>x\<rfloor> else \<lceil>x\<rceil>)"

text \<open>Python's true division \<^verbatim>\<open>a / b\<close> of two \<^verbatim>\<open>int\<close>s.\<close>

definition py_truediv :: "int \<Rightarrow> int \<Rightarrow> error + real" where
  "py_truediv a b = (if b = 0 then Inl ZeroDivisionError else Inr (real_of_int a / real_of_int b))"

text \<open>
  \<^verbatim>\<open>np.linspace(start, stop, num)\<close> with the default \<^verbatim>\<open>endpoint=True\<close>.  NumPy takes
  \<^verbatim>\<open>operator.index(num)\<close>, which raises \<^verbatim>\<open>TypeError\<close> on a float (also on an integral one
  such as \<^verbatim>\<open>10.0\<close>), and rejects a negative count with \<^verbatim>\<open>ValueError\<close>.  With one sample the
  result is \<^verbatim>\<open>[start]\<close>; otherwise the samples are \<^verbatim>\<open>start + i * step\<close> with
  \<^verbatim>\<open>step = (stop - start) / (num - 1)\<close>.
\<close>

definition np_linspace :: "real \<Rightarrow> real \<Rightarrow> count \<Rightarrow> error + real list" where
  "np_linspace start stop num =
     (case num of
        FloatCount x \<Rightarrow> Inl TypeError
      | IntCount n \<Rightarrow>
          if n < 0 then Inl ValueError
          else if n = 1 then Inr [start]
          else Inr (map (\<lambda>i. start + real i * ((stop - start) / real_of_int (n - 1)))
                        [0..<nat n]))"

subsection \<open>\<^verbatim>\<open>generate_angles\<close>\<close>

type_synonym angle = "real \<times> real \<times> real"

text \<open>The loop \<^verbatim>\<open>for ax in xs: angles.append([ax,ay,az])\<close> and its analogue over \<^verbatim>\<open>ay\<close>.\<close>

definition sweep_x :: "real list \<Rightarrow> real \<Rightarrow> real \<Rightarrow> angle list" where
  "sweep_x xs ay az = map (\<lambda>ax. (ax, ay, az)) xs"

definition sweep_y :: "real list \<Rightarrow> real \<Rightarrow> real \<Rightarrow> angle list" where
  "sweep_y ys ax az = map (\<lambda>ay. (ax, ay, az)) ys"

definition mode_x :: "int \<Rightarrow> real \<Rightarrow> error + angle list" where
  "mode_x n_tilt alpha =
     bindE (np_linspace (- alpha) alpha (IntCount n_tilt)) (\<lambda>xs. Inr (sweep_x xs 0 0))"

definition mode_y :: "int \<Rightarrow> real \<Rightarrow> real \<Rightarrow> real \<Rightarrow> string \<Rightarrow> error + angle list" where
  "mode_y n_tilt alpha beta gamma tilt2 =
     (if tilt2 = ''beta'' then
        bindE (np_linspace (- beta) beta (IntCount n_tilt)) (\<lambda>ys. Inr (sweep_y ys 0 0))
      else if tilt2 = ''gamma'' then
        (let az = (if gamma \<ge> 90 then 90 else gamma)
         in bindE (np_linspace (- alpha) alpha (IntCount n_tilt)) (\<lambda>xs. Inr (sweep_x xs 0 az)))
      else Inr [])"

definition mode_dual :: "int \<Rightarrow> real \<Rightarrow> real \<Rightarrow> real \<Rightarrow> string \<Rightarrow> error + angle list" where
  "mode_dual n_tilt alpha beta gamma tilt2 =
     (let half = IntCount (py_int (real_of_int n_tilt / 2)) in
      bindE (np_linspace (- alpha) alpha half) (\<lambda>xs.
        let angles = sweep_x xs 0 0 in
        if tilt2 = ''beta'' then
          bindE (np_linspace (- beta) beta half) (\<lambda>ys. Inr (angles @ sweep_y ys 0 0))
        else if tilt2 = ''gamma'' then
          (let az = (if gamma \<ge> 90 then 90 else gamma)
           in bindE (np_linspace (- alpha) alpha half) (\<lambda>xs2. Inr (angles @ sweep_x xs2 0 az)))
        else Inr angles))"

definition mode_quad :: "int \<Rightarrow> real \<Rightarrow> real \<Rightarrow> real \<Rightarrow> string \<Rightarrow> error + angle list" where
  "mode_quad n_tilt alpha beta gamma tilt2 =
     (let quarter = IntCount (py_int (real_of_int n_tilt / 4));
          unfloored = FloatCount (real_of_int n_tilt / 4)
      in
      if tilt2 = ''beta'' then
        bindE (np_linspace (- alpha) alpha quarter) (\<lambda>xs1.
        bindE (np_linspace (- beta) beta quarter) (\<lambda>ys2.
        bindE (np_linspace (- alpha) alpha quarter) (\<lambda>xs3.
        bindE (np_linspace (- alpha) alpha quarter) (\<lambda>xs4.
          Inr (sweep_x xs1 0 0 @ sweep_y ys2 0 0 @ sweep_x xs3 beta 0 @ sweep_x xs4 (- beta) 0)))))
      else if tilt2 = ''gamma'' then
        (if gamma \<ge> 90 then
           bindE (np_linspace (- alpha) alpha quarter) (\<lambda>xs1.
           bindE (np_linspace (- alpha) alpha quarter) (\<lambda>xs2.
           bindE (np_linspace (- alpha) alpha quarter) (\<lambda>xs3.
           bindE (np_linspace (- alpha) alpha quarter) (\<lambda>xs4.
             Inr (sweep_x xs1 0 0 @ sweep_x xs2 0 90 @ sweep_x xs3 0 45 @ sweep_x xs4 0 (- 45))))))
         else
           bindE (np_linspace (- alpha) alpha unfloored) (\<lambda>xs1.
           bindE (np_linspace (- alpha) alpha unfloored) (\<lambda>xs2.
           bindE (np_linspace (- alpha) alpha unfloored) (\<lambda>xs3.
           bindE (np_linspace (- alpha) alpha unfloored) (\<lambda>xs4.
             Inr (sweep_x xs1 0 gamma @ sweep_x xs2 0 (- gamma) @ sweep_x xs3 0 (gamma / 3)
                  @ sweep_x xs4 0 (- gamma / 3)))))))
      else Inr [])"

text \<open>
  \<^verbatim>\<open>np.random.rand()\<close> is the only source of nondeterminism; \<open>rnd k\<close> is the value of
  the \<open>k\<close>-th draw.  Each pass of the loop draws once for the x angle and, when the
  secondary axis is recognised, once more.
\<close>

definition mode_rand ::
  "(nat \<Rightarrow> real) \<Rightarrow> int \<Rightarrow> real \<Rightarrow> real \<Rightarrow> real \<Rightarrow> string \<Rightarrow> error + angle list" where
  "mode_rand rnd n_tilt alpha beta gamma tilt2 =
     Inr (concat (map (\<lambda>i.
        if tilt2 = ''beta'' then
          [(rnd (2 * i) * alpha * 2 - alpha, rnd (2 * i + 1) * beta * 2 - beta, 0)]
        else if tilt2 = ''gamma'' then
          [(rnd (2 * i) * alpha * 2 - alpha, 0, rnd (2 * i + 1) * gamma * 2 - gamma)]
        else []) [0..<nat n_tilt]))"

text \<open>In \<^verbatim>\<open>sync\<close> and \<^verbatim>\<open>sx\<close> the two series have the same length by construction, so
  \<^verbatim>\<open>ay[i]\<close> for \<^verbatim>\<open>i, a in enumerate(ax)\<close> is the pairing of equal positions.\<close>

definition mode_sync :: "int \<Rightarrow> real \<Rightarrow> real \<Rightarrow> real \<Rightarrow> string \<Rightarrow> error + angle list" where
  "mode_sync n_tilt alpha beta gamma tilt2 =
     (let half = IntCount (py_int (real_of_int n_tilt / 2)) in
      if tilt2 = ''beta'' then
        bindE (np_linspace (- alpha) alpha half) (\<lambda>ax.
        bindE (np_linspace (- beta) beta half) (\<lambda>ay.
          Inr (map (\<lambda>(a, b). (a, b, 0)) (zip ax ay) @ map (\<lambda>(a, b). (a, - b, 0)) (zip ax ay))))
      else if tilt2 = ''gamma'' then
        bindE (np_linspace (- alpha) alpha half) (\<lambda>ax.
        bindE (np_linspace (- gamma) gamma half) (\<lambda>az.
          Inr (map (\<lambda>(a, c). (a, 0, c)) (zip ax az) @ map (\<lambda>(a, c). (a, 0, - c)) (zip ax az))))
      else Inr [])"

definition mode_sx :: "int \<Rightarrow> real \<Rightarrow> real \<Rightarrow> real \<Rightarrow> string \<Rightarrow> error + angle list" where
  "mode_sx n_tilt alpha beta gamma tilt2 =
     (if tilt2 = ''beta'' then
        bindE (np_linspace (- alpha) alpha (IntCount n_tilt)) (\<lambda>ax.
        bindE (np_linspace (- beta) beta (IntCount n_tilt)) (\<lambda>ay.
          Inr (map (\<lambda>(a, b). (a, b, 0)) (zip ax ay))))
      else if tilt2 = ''gamma'' then
        bindE (np_linspace (- alpha) alpha (IntCount n_tilt)) (\<lambda>ax.
        bindE (np_linspace (- gamma) gamma (IntCount n_tilt)) (\<lambda>az.
          Inr (map (\<lambda>(a, c). (a, 0, c)) (zip ax az))))
      else Inr [])"

definition mode_dist ::
  "int \<Rightarrow> real \<Rightarrow> real \<Rightarrow> real \<Rightarrow> int \<Rightarrow> string \<Rightarrow> error + angle list" where
  "mode_dist n_tilt alpha beta gamma dist_n2 tilt2 =
     bindE (py_truediv n_tilt dist_n2) (\<lambda>q.
     bindE (np_linspace (- alpha) alpha (IntCount (py_int q))) (\<lambda>ax0.
     bindE (if alpha = 90
            then bindE (np_linspace (- 90) 90 (FloatCount (q + 1))) (\<lambda>ax1. Inr (rev ax1))
            else Inr ax0) (\<lambda>ax.
       if tilt2 = ''beta'' then
         bindE (np_linspace (- beta) beta (IntCount dist_n2)) (\<lambda>ay.
           Inr (concat (map (\<lambda>x. map (\<lambda>y. (x, y, 0)) ay) ax)))
       else if tilt2 = ''gamma'' then
         (if gamma < 90 then
            bindE (np_linspace (- gamma) gamma (IntCount dist_n2)) (\<lambda>az.
              Inr (concat (map (\<lambda>x. map (\<lambda>z. (x, 0, z)) az) ax)))
          else
            bindE (np_linspace (- 90) 90 (IntCount (dist_n2 + 1))) (\<lambda>az.
              Inr (concat (map (\<lambda>x. map (\<lambda>z. (x, 0, z)) (butlast az)) ax))))
       else Inr [])))"

text \<open>The blocks \<^verbatim>\<open>if mode=='...'\<close> of the source follow one another without \<^verbatim>\<open>else\<close>;
  a string equals at most one of the eight literals, so at most one block runs, and
  \<^verbatim>\<open>angles\<close> is returned as it was initialised, empty, when none does.\<close>

definition generate_angles ::
  "(nat \<Rightarrow> real) \<Rightarrow> string \<Rightarrow> int \<Rightarrow> real \<Rightarrow> real \<Rightarrow> real \<Rightarrow> int \<Rightarrow> string \<Rightarrow> error + angle list"
  where
  "generate_angles rnd mode n_tilt alpha beta gamma dist_n2 tilt2 =
     (if mode = ''x'' then mode_x n_tilt alpha
      else if mode = ''y'' then mode_y n_tilt alpha beta gamma tilt2
      else if mode = ''dual'' then mode_dual n_tilt alpha beta gamma tilt2
      else if mode = ''quad'' then mode_quad n_tilt alpha beta gamma tilt2
      else if mode = ''rand'' then mode_rand rnd n_tilt alpha beta gamma tilt2
      else if mode = ''sync'' then mode_sync n_tilt alpha beta gamma tilt2
      else if mode = ''sx'' then mode_sx n_tilt alpha beta gamma tilt2
      else if mode = ''dist'' then mode_dist n_tilt alpha beta gamma dist_n2 tilt2
      else Inr [])"

section \<open>Projection stacks and the decontamination step\<close>

subsection \<open>Array entries\<close>

text \<open>
  An array entry is a real number or a non-finite float.  The arithmetic below is the
  one NumPy performs without raising: on arrays, \<^verbatim>\<open>1/0\<close> is \<^verbatim>\<open>inf\<close> and \<^verbatim>\<open>0/0\<close>, \<^verbatim>\<open>inf*0\<close>,
  \<^verbatim>\<open>inf-inf\<close> are \<^verbatim>\<open>nan\<close> (with a warning only).  For \<open>+\<close>, \<open>-\<close>, \<open>*\<close> and division by a
  finite number, the result is finite exactly when both operands are finite and the
  divisor is not zero, so the three non-finite floats are kept as the one value
  \<open>NonFin\<close>.
\<close>

datatype val = Fin real | NonFin

fun vmul :: "val \<Rightarrow> val \<Rightarrow> val" where
  "vmul (Fin a) (Fin b) = Fin (a * b)"
| "vmul _ _ = NonFin"

fun vsub :: "val \<Rightarrow> val \<Rightarrow> val" where
  "vsub (Fin a) (Fin b) = Fin (a - b)"
| "vsub _ _ = NonFin"

fun vadd :: "val \<Rightarrow> val \<Rightarrow> val" where
  "vadd (Fin a) (Fin b) = Fin (a + b)"
| "vadd _ _ = NonFin"

text \<open>An array entry divided by a finite scalar.\<close>

fun vdiv :: "val \<Rightarrow> real \<Rightarrow> val" where
  "vdiv (Fin a) c = (if c = 0 then NonFin else Fin (a / c))"
| "vdiv NonFin c = NonFin"

text \<open>\<^verbatim>\<open>1/w\<close> for an entry \<open>w\<close> of a weight array.\<close>

definition recip :: "real \<Rightarrow> val" where
  "recip w = (if w = 0 then NonFin else Fin (1 / w))"

fun is_fin :: "val \<Rightarrow> bool" where
  "is_fin (Fin a) = True"
| "is_fin NonFin = False"

subsection \<open>Two- and three-dimensional arrays\<close>

text \<open>
  A NumPy array is its shape together with its entries, here a function of the
  indices that is read inside the shape only.  A projection stack has the axes
  \<open>(row, tilt, column)\<close>: \<open>dim1\<close> is the number of tilts.
\<close>

record array3 =
  dim0 :: nat
  dim1 :: nat
  dim2 :: nat
  entry :: "nat \<Rightarrow> nat \<Rightarrow> nat \<Rightarrow> val"

record array2 =
  len0 :: nat
  len1 :: nat
  pixel :: "nat \<Rightarrow> nat \<Rightarrow> val"

text \<open>\<^verbatim>\<open>np.array_equal\<close>: the same shape and the same entries.\<close>

definition array_equal :: "array3 \<Rightarrow> array3 \<Rightarrow> bool" where
  "array_equal a b \<longleftrightarrow>
     dim0 a = dim0 b \<and> dim1 a = dim1 b \<and> dim2 a = dim2 b \<and>
     list_all (\<lambda>i. list_all (\<lambda>j. list_all (\<lambda>k. entry a i j k = entry b i j k)
        [0..<dim2 a]) [0..<dim1 a]) [0..<dim0 a]"

definition all_finite :: "array3 \<Rightarrow> bool" where
  "all_finite a \<longleftrightarrow>
     list_all (\<lambda>i. list_all (\<lambda>j. list_all (\<lambda>k. is_fin (entry a i j k))
        [0..<dim2 a]) [0..<dim1 a]) [0..<dim0 a]"

definition map_array :: "(val \<Rightarrow> val) \<Rightarrow> array3 \<Rightarrow> array3" where
  "map_array f a = a\<lparr>entry := \<lambda>i j k. f (entry a i j k)\<rparr>"

text \<open>\<^verbatim>\<open>projs[:,i,:]\<close>, which raises \<^verbatim>\<open>IndexError\<close> when \<open>i\<close> is not a tilt index.\<close>

definition slice_tilt :: "array3 \<Rightarrow> nat \<Rightarrow> error + array2" where
  "slice_tilt projs i =
     (if i < dim1 projs
      then Inr \<lparr>len0 = dim0 projs, len1 = dim2 projs, pixel = \<lambda>r c. entry projs r i c\<rparr>
      else Inl IndexError)"

text \<open>\<^verbatim>\<open>p*w\<close> for a 2-D array and a scalar.\<close>

definition scale_img :: "array2 \<Rightarrow> val \<Rightarrow> array2" where
  "scale_img p w = p\<lparr>pixel := \<lambda>r c. vmul (pixel p r c) w\<rparr>"

text \<open>
  \<^verbatim>\<open>np.transpose(new_ps, axes=[1,0,2])\<close> of a Python list of equally shaped 2-D arrays.
  The empty list becomes an array of shape \<open>(0,)\<close>, for which three axes do not match:
  NumPy raises \<^verbatim>\<open>ValueError\<close>.  The lists built by the source hold slices of one
  stack, so all elements have the shape of the first.
\<close>

definition np_transpose_102 :: "array2 list \<Rightarrow> error + array3" where
  "np_transpose_102 ps =
     (if ps = [] then Inl ValueError
      else Inr \<lparr>dim0 = len0 (hd ps), dim1 = length ps, dim2 = len1 (hd ps),
                entry = \<lambda>r t c. pixel (ps ! t) r c\<rparr>)"

text \<open>
  Elementwise subtraction of two 3-D arrays with NumPy's broadcasting: two lengths
  of an axis are compatible when they are equal or one of them is 1, and the array
  whose length is 1 is read at index 0 along that axis.
\<close>

definition bdim :: "nat \<Rightarrow> nat \<Rightarrow> nat option" where
  "bdim m n = (if m = n then Some m else if m = 1 then Some n else if n = 1 then Some m else None)"

definition bidx :: "nat \<Rightarrow> nat \<Rightarrow> nat" where
  "bidx m i = (if m = 1 then 0 else i)"

definition np_sub :: "array3 \<Rightarrow> array3 \<Rightarrow> error + array3" where
  "np_sub a b =
     (case (bdim (dim0 a) (dim0 b), bdim (dim1 a) (dim1 b), bdim (dim2 a) (dim2 b)) of
        (Some d0, Some d1, Some d2) \<Rightarrow>
          Inr \<lparr>dim0 = d0, dim1 = d1, dim2 = d2,
               entry = \<lambda>i j k. vsub (entry a (bidx (dim0 a) i) (bidx (dim1 a) j) (bidx (dim2 a) k))
                                     (entry b (bidx (dim0 b) i) (bidx (dim1 b) j) (bidx (dim2 b) k))\<rparr>
      | _ \<Rightarrow> Inl ValueError)"

subsection \<open>\<^verbatim>\<open>weight_phases\<close>\<close>

text \<open>The loop \<^verbatim>\<open>for i,w in enumerate(ws)\<close>, from index \<open>i\<close> on.\<close>

fun weight_loop :: "array3 \<Rightarrow> nat \<Rightarrow> val list \<Rightarrow> error + array2 list" where
  "weight_loop projs i [] = Inr []"
| "weight_loop projs i (w # ws) =
     bindE (slice_tilt projs i) (\<lambda>p.
     bindE (weight_loop projs (Suc i) ws) (\<lambda>new_ps.
       Inr (scale_img p w # new_ps)))"

definition weight_phases :: "array3 \<Rightarrow> val list \<Rightarrow> error + array3" where
  "weight_phases projs ws = bindE (weight_loop projs 0 ws) np_transpose_102"

subsection \<open>\<^verbatim>\<open>update_weighted_proj_data\<close>\<close>

text \<open>
  \<^verbatim>\<open>ws[:,k]\<close> for the weight array.  \<open>calculate_A_contributions\<close> returns \<^verbatim>\<open>np.array(ws)\<close>,
  of shape \<open>(N, 3)\<close>, or of shape \<open>(0,)\<close> for an empty angle list, where two indices are
  too many and NumPy raises \<^verbatim>\<open>IndexError\<close>.
\<close>

definition np_col :: "mat \<Rightarrow> nat \<Rightarrow> error + real list" where
  "np_col ws k =
     (if ws = [] \<or> (\<exists>w \<in> set ws. length w \<le> k) then Inl IndexError else Inr (column ws k))"

text \<open>
  One of the three statement pairs of the source, for the target component \<open>k0\<close> and
  the two other components \<open>k1\<close>, \<open>k2\<close>:
  \<^verbatim>\<open>new = scaled - weight_phases(a1, ws[:,k1]) - weight_phases(a2, ws[:,k2])\<close> and then
  \<^verbatim>\<open>new = weight_phases(new, 1/ws[:,k0])\<close>, where \<open>scaled\<close> is \<^verbatim>\<open>phase_projs*1/const\<close>.
  Python evaluates the operands from left to right.
\<close>

definition remove_and_reweight ::
  "array3 \<Rightarrow> array3 \<Rightarrow> nat \<Rightarrow> array3 \<Rightarrow> nat \<Rightarrow> nat \<Rightarrow> mat \<Rightarrow> error + array3" where
  "remove_and_reweight scaled a1 k1 a2 k2 k0 ws =
     bindE (np_col ws k1) (\<lambda>w1.
     bindE (weight_phases a1 (map Fin w1)) (\<lambda>p1.
     bindE (np_sub scaled p1) (\<lambda>d1.
     bindE (np_col ws k2) (\<lambda>w2.
     bindE (weight_phases a2 (map Fin w2)) (\<lambda>p2.
     bindE (np_sub d1 p2) (\<lambda>d2.
     bindE (np_col ws k0) (\<lambda>w0.
       weight_phases d2 (map recip w0))))))))"

text \<open>
  The constant \<^verbatim>\<open>const = -np.pi/constants.codata.value('mag. flux quantum')/(2*np.pi)\<close>.
  The flux quantum comes from SciPy's table and is the parameter \<open>phi0\<close>; dividing
  the Python float \<^verbatim>\<open>-np.pi\<close> by zero raises.
\<close>

definition phase_const :: "real \<Rightarrow> real" where
  "phase_const phi0 = - pi / phi0 / (2 * pi)"

definition update_weighted_proj_data ::
  "real \<Rightarrow> array3 \<Rightarrow> array3 \<Rightarrow> array3 \<Rightarrow> array3 \<Rightarrow> mat \<Rightarrow> error + (array3 \<times> array3 \<times> array3)"
  where
  "update_weighted_proj_data phi0 phase_projs a_weighted_x a_weighted_y a_weighted_z ws =
     (if phi0 = 0 then Inl ZeroDivisionError
      else
        let const = phase_const phi0;
            scaled = map_array (\<lambda>v. vdiv (vmul v (Fin 1)) const) phase_projs
        in
        bindE (remove_and_reweight scaled a_weighted_y 1 a_weighted_z 2 0 ws) (\<lambda>new_x.
        bindE (remove_and_reweight scaled a_weighted_x 0 a_weighted_z 2 1 ws) (\<lambda>new_y.
        bindE (remove_and_reweight scaled a_weighted_y 1 a_weighted_x 0 2 ws) (\<lambda>new_z.
          Inr (new_x, new_y, new_z)))))"

subsection \<open>The additive mixing model of the specification\<close>

text \<open>
  The phase at row \<open>r\<close>, tilt \<open>t\<close>, column \<open>c\<close> generated by the component stacks:
  \<open>const \<cdot> (wx \<cdot> Ax + wy \<cdot> Ay + wz \<cdot> Az)\<close> with the weights of tilt \<open>t\<close>.
\<close>

definition mix :: "real \<Rightarrow> mat \<Rightarrow> array3 \<Rightarrow> array3 \<Rightarrow> array3 \<Rightarrow> array3" where
  "mix phi0 ws Ax Ay Az =
     \<lparr>dim0 = dim0 Ax, dim1 = dim1 Ax, dim2 = dim2 Ax,
      entry = \<lambda>r t c.
        vmul (Fin (phase_const phi0))
          (vadd (vadd (vmul (Fin (ws ! t ! 0)) (entry Ax r t c))
                      (vmul (Fin (ws ! t ! 1)) (entry Ay r t c)))
                (vmul (Fin (ws ! t ! 2)) (entry Az r t c)))\<rparr>"

text \<open>An entry of \<^verbatim>\<open>phase_projs*1/const\<close>.\<close>

definition scaled_entry :: "real \<Rightarrow> array3 \<Rightarrow> nat \<Rightarrow> nat \<Rightarrow> nat \<Rightarrow> val" where
  "scaled_entry phi0 phase r t c = vdiv (vmul (entry phase r t c) (Fin 1)) (phase_const phi0)"



text \<open>The stack with one row, one tilt and one column that holds the number \<open>x\<close>.\<close>

definition single :: "real \<Rightarrow> array3" where
  "single x = \<lparr>dim0 = 1, dim1 = 1, dim2 = 1, entry = \<lambda>i j k. Fin x\<rparr>"

section \<open>The iterative reconstruction\<close>

subsection \<open>The reconstruction backend\<close>

text \<open>
  The ASTRA toolbox and the solvers behind \<^verbatim>\<open>generate_reconstruction\<close> and
  \<^verbatim>\<open>generate_A_projection_fast\<close> are not part of the program: they are the fields
  of a record, each taking the state \<open>'b\<close> of the backend (device memory, handles,
  whatever it records) and returning the new one, together with its result or the
  error it raises.  \<^verbatim>\<open>astra.clear()\<close> acts on the state only.
\<close>

type_synonym mesh_params = "(real \<times> real \<times> real) \<times> (real \<times> real \<times> real) \<times> (real \<times> real \<times> real)"

record recon_opts =
  algorithm :: string
  niter :: int
  weight :: real
  balance :: real
  steps :: string
  callback_freq :: int

record 'b backend =
  generate_reconstruction ::
    "'b \<Rightarrow> array3 \<Rightarrow> vec list \<Rightarrow> recon_opts \<Rightarrow> (error + array3) \<times> 'b"
  generate_A_projection_fast ::
    "'b \<Rightarrow> array3 \<Rightarrow> array3 \<Rightarrow> array3 \<Rightarrow> angle list \<Rightarrow> mesh_params
       \<Rightarrow> (error + array3 \<times> array3 \<times> array3) \<times> 'b"
  astra_clear :: "'b \<Rightarrow> 'b"

subsection \<open>\<^verbatim>\<open>recon_step\<close>\<close>

text \<open>
  The thresholding loop \<^verbatim>\<open>for i,w in enumerate(ws): if abs(w) > thresh: ...\<close>, from
  index \<open>i\<close> on.  It returns the lists \<^verbatim>\<open>a_thresh\<close> and \<^verbatim>\<open>angles_thresh\<close>; reading a slice
  or an angle that does not exist raises \<^verbatim>\<open>IndexError\<close>.
\<close>

fun threshold_loop ::
  "array3 \<Rightarrow> angle list \<Rightarrow> real \<Rightarrow> nat \<Rightarrow> real list \<Rightarrow> error + (array2 list \<times> angle list)"
  where
  "threshold_loop a_projs angles thresh i [] = Inr ([], [])"
| "threshold_loop a_projs angles thresh i (w # ws) =
     (if \<bar>w\<bar> > thresh then
        bindE (slice_tilt a_projs i) (\<lambda>p.
          if i < length angles then
            bindE (threshold_loop a_projs angles thresh (Suc i) ws) (\<lambda>(a_thresh, angles_thresh).
              Inr (p # a_thresh, angles ! i # angles_thresh))
          else Inl IndexError)
      else threshold_loop a_projs angles thresh (Suc i) ws)"

text \<open>\<^verbatim>\<open>np.transpose(recon, axes=(2,1,0))[:,::-1,:]\<close> and \<^verbatim>\<open>recon/res\<close>.\<close>

definition np_transpose_210 :: "array3 \<Rightarrow> array3" where
  "np_transpose_210 a =
     \<lparr>dim0 = dim2 a, dim1 = dim1 a, dim2 = dim0 a, entry = \<lambda>i j k. entry a k j i\<rparr>"

definition reverse_axis1 :: "array3 \<Rightarrow> array3" where
  "reverse_axis1 a = a\<lparr>entry := \<lambda>i j k. entry a i (dim1 a - 1 - j) k\<rparr>"

text \<open>
  The mesh parameters are a tuple \<open>(p1, p2, nn)\<close> of tuples of Python numbers, so
  \<^verbatim>\<open>res = p2[0]/nn[0]\<close> raises \<^verbatim>\<open>ZeroDivisionError\<close> when \<^verbatim>\<open>nn[0]\<close> is zero.  The loop, the
  transposition of the selected slices and \<open>generate_vectors\<close> come before the one call
  of the backend.
\<close>

definition recon_step ::
  "'b backend \<Rightarrow> 'b \<Rightarrow> array3 \<Rightarrow> real list \<Rightarrow> angle list \<Rightarrow> mesh_params \<Rightarrow> real \<Rightarrow> recon_opts
     \<Rightarrow> (error + array3) \<times> 'b"
  where
  "recon_step B b a_projs ws angles mesh thresh opts =
     (case mesh of (p1, p2, nn) \<Rightarrow>
        if fst nn = 0 then (Inl ZeroDivisionError, b)
        else
          let res = fst p2 / fst nn in
          case threshold_loop a_projs angles thresh 0 ws of
            Inl e \<Rightarrow> (Inl e, b)
          | Inr (a_thresh, angles_thresh) \<Rightarrow>
              (case np_transpose_102 a_thresh of
                 Inl e \<Rightarrow> (Inl e, b)
               | Inr a_stack \<Rightarrow>
                   let vecs = generate_vectors angles_thresh in
                   (case generate_reconstruction B b a_stack vecs opts of
                      (Inl e, b') \<Rightarrow> (Inl e, b')
                    | (Inr recon, b') \<Rightarrow>
                        (Inr (map_array (\<lambda>v. vdiv v res)
                                (reverse_axis1 (np_transpose_210 recon))),
                         astra_clear B b'))))"

text \<open>The indices that the thresholding loop keeps.\<close>

definition selected :: "real list \<Rightarrow> real \<Rightarrow> nat list" where
  "selected ws thresh = filter (\<lambda>i. \<bar>ws ! i\<bar> > thresh) [0..<length ws]"

subsection \<open>The threshold schedule of \<^verbatim>\<open>iterative_update_algorithm\<close>\<close>

text \<open>Indexing a sequence with a Python integer; a negative index counts from the end.\<close>

definition py_index :: "'a list \<Rightarrow> int \<Rightarrow> error + 'a" where
  "py_index xs k =
     (let n = int (length xs);
          j = (if k < 0 then n + k else k)
      in if 0 \<le> j \<and> j < n then Inr (xs ! nat j) else Inl IndexError)"

text \<open>
  The values that the variable \<^verbatim>\<open>thresh\<close> takes, in order: \<^verbatim>\<open>thresh = tmax\<close> before the
  first major iteration, then \<^verbatim>\<open>thresh = possible_ts[-(i+1)]\<close> for \<^verbatim>\<open>i in range(n_full_iter-1)\<close>,
  with \<^verbatim>\<open>possible_ts = np.linspace(tmin,tmax,n_full_iter-1)\<close>.
\<close>

fun loop_thresholds :: "real list \<Rightarrow> nat list \<Rightarrow> error + real list" where
  "loop_thresholds possible_ts [] = Inr []"
| "loop_thresholds possible_ts (i # is) =
     bindE (py_index possible_ts (- (int i + 1))) (\<lambda>thresh.
     bindE (loop_thresholds possible_ts is) (\<lambda>rest. Inr (thresh # rest)))"

definition thresholds :: "int \<Rightarrow> real \<times> real \<Rightarrow> error + real list" where
  "thresholds n_full_iter thresh_range =
     (case thresh_range of (tmin, tmax) \<Rightarrow>
        bindE (np_linspace tmin tmax (IntCount (n_full_iter - 1))) (\<lambda>possible_ts.
        bindE (loop_thresholds possible_ts [0..<nat (n_full_iter - 1)]) (\<lambda>later.
          Inr (tmax # later))))"

text \<open>
  A backend that does nothing but count the calls made to it: its reconstruction is
  the stack it is given, and its projections are zero stacks with one row, one column
  and one tilt for each angle.
\<close>

definition zero_stack :: "nat \<Rightarrow> array3" where
  "zero_stack n = \<lparr>dim0 = 1, dim1 = n, dim2 = 1, entry = \<lambda>i j k. Fin 0\<rparr>"

definition counting_backend :: "nat backend" where
  "counting_backend =
     \<lparr>generate_reconstruction = \<lambda>b a vecs opts. (Inr a, Suc b),
      generate_A_projection_fast = \<lambda>b ax ay az angles mesh.
        (Inr (zero_stack (length angles), zero_stack (length angles), zero_stack (length angles)),
         Suc b),
      astra_clear = \<lambda>b. b\<rparr>"

definition default_opts :: recon_opts where
  "default_opts =
     \<lparr>algorithm = ''SIRT3D_CUDA'', niter = 40, weight = 1 / 1000, balance = 1,
      steps = ''backtrack'', callback_freq = 0\<rparr>"

subsection \<open>\<^verbatim>\<open>iterative_update_algorithm\<close>\<close>

definition zeros_like :: "array3 \<Rightarrow> array3" where
  "zeros_like a = a\<lparr>entry := \<lambda>i j k. Fin 0\<rparr>"

text \<open>
  \<^verbatim>\<open>A[n:-n,n:-n,n:-n]\<close>: along an axis of length \<open>d\<close> the slice \<^verbatim>\<open>n:-n\<close> keeps the indices
  from \<open>n\<close> up to \<open>d - n\<close>, and nothing at all for \<open>n = 0\<close>, where \<^verbatim>\<open>-0\<close> is \<open>0\<close>.
\<close>

definition slice_len :: "nat \<Rightarrow> nat \<Rightarrow> nat" where
  "slice_len n d = (if n = 0 then 0 else d - 2 * n)"

definition crop :: "nat \<Rightarrow> array3 \<Rightarrow> array3" where
  "crop n a =
     \<lparr>dim0 = slice_len n (dim0 a), dim1 = slice_len n (dim1 a), dim2 = slice_len n (dim2 a),
      entry = \<lambda>i j k. entry a (i + n) (j + n) (k + n)\<rparr>"

text \<open>\<^verbatim>\<open>np.pad(a,[(n,n),(0,0),(n,n)], mode='constant', constant_values=0)\<close>.\<close>

definition pad :: "nat \<Rightarrow> array3 \<Rightarrow> array3" where
  "pad n a =
     \<lparr>dim0 = dim0 a + 2 * n, dim1 = dim1 a, dim2 = dim2 a + 2 * n,
      entry = \<lambda>i j k.
        if n \<le> i \<and> i < n + dim0 a \<and> n \<le> k \<and> k < n + dim2 a
        then entry a (i - n) j (k - n) else Fin 0\<rparr>"

text \<open>The three calls of \<open>recon_step\<close> of one major iteration, for x, y and z in turn.\<close>

definition recon_three ::
  "'b backend \<Rightarrow> 'b \<Rightarrow> array3 \<Rightarrow> array3 \<Rightarrow> array3 \<Rightarrow> mat \<Rightarrow> angle list \<Rightarrow> mesh_params \<Rightarrow> real
     \<Rightarrow> recon_opts \<Rightarrow> (error + array3 \<times> array3 \<times> array3) \<times> 'b"
  where
  "recon_three B b a_weighted_x a_weighted_y a_weighted_z ws angles mesh thresh opts =
     (case np_col ws 0 of
        Inl e \<Rightarrow> (Inl e, b)
      | Inr w0 \<Rightarrow>
         (case recon_step B b a_weighted_x w0 angles mesh thresh opts of
            (Inl e, b1) \<Rightarrow> (Inl e, b1)
          | (Inr Ax_recon, b1) \<Rightarrow>
             (case np_col ws 1 of
                Inl e \<Rightarrow> (Inl e, b1)
              | Inr w1 \<Rightarrow>
                 (case recon_step B b1 a_weighted_y w1 angles mesh thresh opts of
                    (Inl e, b2) \<Rightarrow> (Inl e, b2)
                  | (Inr Ay_recon, b2) \<Rightarrow>
                     (case np_col ws 2 of
                        Inl e \<Rightarrow> (Inl e, b2)
                      | Inr w2 \<Rightarrow>
                         (case recon_step B b2 a_weighted_z w2 angles mesh thresh opts of
                            (Inl e, b3) \<Rightarrow> (Inl e, b3)
                          | (Inr Az_recon, b3) \<Rightarrow>
                              (Inr (Ax_recon, Ay_recon, Az_recon), b3)))))))"

text \<open>
  The loop \<^verbatim>\<open>for i in range(n_full_iter-1)\<close> over the remaining indices.  Besides the
  result and the state of the backend it returns \<open>used\<close>, the thresholds with which
  the major iterations have called \<open>recon_step\<close> so far; \<open>used\<close> is an observation of
  the run and has no influence on it.
\<close>

fun major_loop ::
  "'b backend \<Rightarrow> real \<Rightarrow> array3 \<Rightarrow> angle list \<Rightarrow> mesh_params \<Rightarrow> nat \<Rightarrow> recon_opts \<Rightarrow> mat
     \<Rightarrow> real list \<Rightarrow> nat list \<Rightarrow> array3 \<times> array3 \<times> array3 \<Rightarrow> real list \<Rightarrow> 'b
     \<Rightarrow> ((error + array3 \<times> array3 \<times> array3) \<times> real list) \<times> 'b"
  where
  "major_loop B phi0 phase_projs angles mesh n_pad opts ws possible_ts [] recon used b =
     ((Inr recon, used), b)"
| "major_loop B phi0 phase_projs angles mesh n_pad opts ws possible_ts (i # is) recon used b =
     (case recon of (Ax_recon, Ay_recon, Az_recon) \<Rightarrow>
      case py_index possible_ts (- (int i + 1)) of
        Inl e \<Rightarrow> ((Inl e, used), b)
      | Inr thresh \<Rightarrow>
         (case generate_A_projection_fast B b (crop n_pad Ax_recon) (crop n_pad Ay_recon)
                 (crop n_pad Az_recon) angles mesh of
            (Inl e, b1) \<Rightarrow> ((Inl e, used), b1)
          | (Inr (px, py, pz), b1) \<Rightarrow>
             (case update_weighted_proj_data phi0 phase_projs
                     (pad n_pad px) (pad n_pad py) (pad n_pad pz) ws of
                Inl e \<Rightarrow> ((Inl e, used), b1)
              | Inr (a_weighted_x, a_weighted_y, a_weighted_z) \<Rightarrow>
                 (case recon_three B b1 a_weighted_x a_weighted_y a_weighted_z ws angles mesh
                         thresh opts of
                    (Inl e, b2) \<Rightarrow> ((Inl e, used @ [thresh]), b2)
                  | (Inr recon', b2) \<Rightarrow>
                      major_loop B phi0 phase_projs angles mesh n_pad opts ws possible_ts is
                        recon' (used @ [thresh]) (astra_clear B b2)))))"

definition iterative_update_algorithm ::
  "'b backend \<Rightarrow> 'b \<Rightarrow> real \<Rightarrow> array3 \<Rightarrow> angle list \<Rightarrow> mesh_params \<Rightarrow> nat \<Rightarrow> int \<Rightarrow> int \<Rightarrow> string
     \<Rightarrow> real \<Rightarrow> real \<times> real \<Rightarrow> bool
     \<Rightarrow> ((error + array3 \<times> array3 \<times> array3) \<times> real list) \<times> 'b"
  where
  "iterative_update_algorithm B b phi0 phase_projs angles mesh n_pad n_full_iter n_step_iter
       alg wt thresh_range callback =
     (let opts = \<lparr>algorithm = alg, niter = n_step_iter, weight = wt, balance = 1,
                  steps = ''backtrack'', callback_freq = (if callback then 1 else 0)\<rparr>;
          ws = calculate_A_contributions angles
      in
      case thresh_range of (tmin, tmax) \<Rightarrow>
      case np_linspace tmin tmax (IntCount (n_full_iter - 1)) of
        Inl e \<Rightarrow> ((Inl e, []), b)
      | Inr possible_ts \<Rightarrow>
         (let thresh = tmax;
              a_weighted_x = zeros_like phase_projs;
              a_weighted_y = zeros_like phase_projs;
              a_weighted_z = zeros_like phase_projs
          in
          case update_weighted_proj_data phi0 phase_projs a_weighted_x a_weighted_y
                  a_weighted_z ws of
            Inl e \<Rightarrow> ((Inl e, []), b)
          | Inr (a_weighted_x, a_weighted_y, a_weighted_z) \<Rightarrow>
             (case recon_three B b a_weighted_x a_weighted_y a_weighted_z ws angles mesh
                     thresh opts of
                (Inl e, b1) \<Rightarrow> ((Inl e, [thresh]), b1)
              | (Inr recon, b1) \<Rightarrow>
                  major_loop B phi0 phase_projs angles mesh n_pad opts ws possible_ts
                    [0..<nat (n_full_iter - 1)] recon [thresh] b1)))"

section \<open>Rotation matrices in closed form\<close>

lemma upt_3: "[0..<3] = [0, 1, 2]"
  by (simp add: upt_rec)

lemma rotation_matrix_intrinsic:
  "rotation_matrix ax ay az True =
     [[cos (deg az) * cos (deg ay),
       cos (deg az) * sin (deg ay) * sin (deg ax) - sin (deg az) * cos (deg ax),
       cos (deg az) * sin (deg ay) * cos (deg ax) + sin (deg az) * sin (deg ax)],
      [sin (deg az) * cos (deg ay),
       sin (deg az) * sin (deg ay) * sin (deg ax) + cos (deg az) * cos (deg ax),
       sin (deg az) * sin (deg ay) * cos (deg ax) - cos (deg az) * sin (deg ax)],
      [- sin (deg ay), cos (deg ay) * sin (deg ax), cos (deg ay) * cos (deg ax)]]"
  by (simp add: rotation_matrix_def Let_def dot_mm_def dot_vv_def column_def upt_3 deg_def
      algebra_simps)

lemma rotation_matrix_extrinsic:
  "rotation_matrix ax ay az False =
     [[cos (deg ay) * cos (deg az), - (cos (deg ay) * sin (deg az)), sin (deg ay)],
      [cos (deg ax) * sin (deg az) + sin (deg ax) * sin (deg ay) * cos (deg az),
       cos (deg ax) * cos (deg az) - sin (deg ax) * sin (deg ay) * sin (deg az),
       - (sin (deg ax) * cos (deg ay))],
      [sin (deg ax) * sin (deg az) - cos (deg ax) * sin (deg ay) * cos (deg az),
       sin (deg ax) * cos (deg az) + cos (deg ax) * sin (deg ay) * sin (deg az),
       cos (deg ax) * cos (deg ay)]]"
  by (simp add: rotation_matrix_def Let_def dot_mm_def dot_vv_def column_def upt_3 deg_def
      algebra_simps)

lemma A_contribution_closed:
  "A_contribution (ax, ay, az) =
     [- sin (deg ay), cos (deg ay) * sin (deg ax), cos (deg ay) * cos (deg ax)]"
  by (simp add: A_contribution_def rotation_matrix_intrinsic dot_mv_def dot_vv_def)

lemma spec_intrinsic_closed:
  "spec_intrinsic ax ay az = rotation_matrix ax ay az True"
  by (simp add: spec_intrinsic_def mat_mul3_def ent_def spec_Rx_def spec_Ry_def spec_Rz_def
      rotation_matrix_intrinsic algebra_simps)

lemma spec_extrinsic_closed:
  "spec_extrinsic ax ay az = rotation_matrix ax ay az False"
  by (simp add: spec_extrinsic_def mat_mul3_def ent_def spec_Rx_def spec_Ry_def spec_Rz_def
      rotation_matrix_extrinsic algebra_simps)

lemma get_astravec_closed:
  "get_astravec ax ay az =
     [sin (deg ay), sin (deg ax) * cos (deg ay), - (cos (deg ax) * cos (deg ay)),
      0, 0, 0,
      cos (deg ay) * cos (deg az),
      cos (deg ax) * sin (deg az) - sin (deg ax) * sin (deg ay) * cos (deg az),
      sin (deg ax) * sin (deg az) + cos (deg ax) * sin (deg ay) * cos (deg az),
      - (cos (deg ay) * sin (deg az)),
      cos (deg ax) * cos (deg az) + sin (deg ax) * sin (deg ay) * sin (deg az),
      sin (deg ax) * cos (deg az) - cos (deg ax) * sin (deg ay) * sin (deg az)]"
  by (simp add: get_astravec_def Let_def rotation_matrix_extrinsic dot_mv_def dot_vv_def
      deg_def)

subsection \<open>The projection vector\<close>

text \<open>
  Claim C5.  For every triple \<open>(ax, ay, az)\<close>, \<open>get_astravec\<close> returns the twelve numbers
  \<open>[r, d, u, v]\<close> where, with \<open>M\<close> the extrinsic matrix \<open>Rx \<cdot> Ry \<cdot> Rz\<close> taken at
  \<open>(ax, - ay, az)\<close>, the ray direction is \<open>r = M (0,0,1) \<cdot> (-1)\<close>, the detector centre is
  \<open>d = (0,0,0)\<close>, and the detector axes are \<open>u = M (1,0,0)\<close> and \<open>v = M (0,1,0)\<close>.
\<close>

theorem get_astravec_spec:
  "get_astravec ax ay az =
     map (\<lambda>x. x * (- 1)) (mat_vec3 (spec_extrinsic ax (- ay) az) (0, 0, 1))
       @ [0, 0, 0]
       @ mat_vec3 (spec_extrinsic ax (- ay) az) (1, 0, 0)
       @ mat_vec3 (spec_extrinsic ax (- ay) az) (0, 1, 0)
   \<and> length (get_astravec ax ay az) = 12"
  by (simp add: get_astravec_def Let_def spec_extrinsic_closed rotation_matrix_extrinsic
      mat_vec3_def ent_def dot_mv_def dot_vv_def)

text \<open>The columns of a rotation matrix are orthonormal; this is the polynomial
  identity behind it, with the three Pythagorean identities as hypotheses.\<close>

lemma orthonormal_columns:
  fixes sx cx sy cy sz cz :: real
  assumes "sx\<^sup>2 + cx\<^sup>2 = 1" "sy\<^sup>2 + cy\<^sup>2 = 1" "sz\<^sup>2 + cz\<^sup>2 = 1"
  shows "(cy * cz) * (cy * cz) + (cx * sz - sx * sy * cz) * (cx * sz - sx * sy * cz)
           + (sx * sz + cx * sy * cz) * (sx * sz + cx * sy * cz) = 1"
    and "(- (cy * sz)) * (- (cy * sz)) + (cx * cz + sx * sy * sz) * (cx * cz + sx * sy * sz)
           + (sx * cz - cx * sy * sz) * (sx * cz - cx * sy * sz) = 1"
    and "(cy * cz) * (- (cy * sz)) + (cx * sz - sx * sy * cz) * (cx * cz + sx * sy * sz)
           + (sx * sz + cx * sy * cz) * (sx * cz - cx * sy * sz) = 0"
    and "sy * (cy * cz) + (sx * cy) * (cx * sz - sx * sy * cz)
           + (- (cx * cy)) * (sx * sz + cx * sy * cz) = 0"
    and "sy * (- (cy * sz)) + (sx * cy) * (cx * cz + sx * sy * sz)
           + (- (cx * cy)) * (sx * cz - cx * sy * sz) = 0"
  using assms by algebra+

text \<open>
  Claim C6.  For every angle triple the detector axes \<open>u\<close> and \<open>v\<close> of the projection
  vector are unit vectors orthogonal to each other, and the ray direction \<open>r\<close> is
  orthogonal to both, exactly in real arithmetic.
\<close>

theorem astravec_orthonormal:
  "inner3 (det_u_of (get_astravec ax ay az)) (det_u_of (get_astravec ax ay az)) = 1
   \<and> inner3 (det_v_of (get_astravec ax ay az)) (det_v_of (get_astravec ax ay az)) = 1
   \<and> inner3 (det_u_of (get_astravec ax ay az)) (det_v_of (get_astravec ax ay az)) = 0
   \<and> inner3 (ray_of (get_astravec ax ay az)) (det_u_of (get_astravec ax ay az)) = 0
   \<and> inner3 (ray_of (get_astravec ax ay az)) (det_v_of (get_astravec ax ay az)) = 0"
  using orthonormal_columns[OF sin_cos_squared_add[of "deg ax"] sin_cos_squared_add[of "deg ay"]
      sin_cos_squared_add[of "deg az"]]
  by (simp add: get_astravec_closed inner3_def det_u_of_def det_v_of_def ray_of_def)

subsection \<open>The weight triple\<close>

lemma unit_row:
  fixes sx cx sy cy :: real
  assumes "sx\<^sup>2 + cx\<^sup>2 = 1" "sy\<^sup>2 + cy\<^sup>2 = 1"
  shows "sy\<^sup>2 + (cy * sx)\<^sup>2 + (cy * cx)\<^sup>2 = 1"
  using assms by algebra

lemma weights_sum_squares:
  "(A_contribution (ax, ay, az) ! 0)\<^sup>2 + (A_contribution (ax, ay, az) ! 1)\<^sup>2
     + (A_contribution (ax, ay, az) ! 2)\<^sup>2 = 1"
  using unit_row[OF sin_cos_squared_add[of "deg ax"] sin_cos_squared_add[of "deg ay"]]
  by (simp add: A_contribution_closed)

text \<open>
  Claim C3 says that some rotation triple gives a weight triple with
  \<open>wx\<^sup>2 + wy\<^sup>2 + wz\<^sup>2 \<noteq> 1\<close> in exact arithmetic.  The weight triple is the third row of
  a rotation matrix, so no such triple exists.
\<close>

theorem weights_not_normalised_refuted:
  "\<not> (\<exists>ax ay az. (A_contribution (ax, ay, az) ! 0)\<^sup>2 + (A_contribution (ax, ay, az) ! 1)\<^sup>2
     + (A_contribution (ax, ay, az) ! 2)\<^sup>2 \<noteq> 1)"
  using weights_sum_squares by blast

text \<open>
  Claim C3, amended.  For every rotation triple, the weight triple \<open>(wx, wy, wz)\<close> computed
  by \<open>calculate_A_contributions\<close> satisfies \<open>wx\<^sup>2 + wy\<^sup>2 + wz\<^sup>2 = 1\<close> in exact arithmetic.
\<close>

theorem weights_normalised:
  "(A_contribution (ax, ay, az) ! 0)\<^sup>2 + (A_contribution (ax, ay, az) ! 1)\<^sup>2
     + (A_contribution (ax, ay, az) ! 2)\<^sup>2 = 1
   \<and> (\<forall>w \<in> set (calculate_A_contributions angles). (w ! 0)\<^sup>2 + (w ! 1)\<^sup>2 + (w ! 2)\<^sup>2 = 1)"
  using weights_sum_squares by (auto simp: calculate_A_contributions_def)

theorem weights_normalised_witness:
  "[0, 0, 1] \<in> set (calculate_A_contributions [(0, 0, 0)])
   \<and> ([0, 0, 1 :: real] ! 0)\<^sup>2 + ([0, 0, 1 :: real] ! 1)\<^sup>2 + ([0, 0, 1 :: real] ! 2)\<^sup>2 = 1"
proof -
  have m: "[0, 0, 1] \<in> set (calculate_A_contributions [(0, 0, 0)])"
    by (simp add: calculate_A_contributions_def A_contribution_closed deg_def)
  from weights_normalised[of 0 0 0 "[(0, 0, 0)]"] m show ?thesis
    by blast
qed

text \<open>
  Claim C9.  For every rotation triple \<open>(ax, ay, az)\<close> the weight triple equals the third
  row of the intrinsic rotation matrix \<open>Rz \<cdot> Ry \<cdot> Rx\<close>; in particular
  \<open>wz = cos ax \<cdot> cos ay\<close> (angles in degrees), which does not depend on \<open>az\<close>.
\<close>

theorem weights_third_row:
  "A_contribution (ax, ay, az) = row3 (spec_intrinsic ax ay az) 2
   \<and> A_contribution (ax, ay, az) ! 2 = cos (deg ax) * cos (deg ay)
   \<and> A_contribution (ax, ay, az') ! 2 = A_contribution (ax, ay, az) ! 2
   \<and> calculate_A_contributions angles =
       map (\<lambda>(ax, ay, az). row3 (spec_intrinsic ax ay az) 2) angles"
proof -
  have row: "A_contribution (x, y, z) = row3 (spec_intrinsic x y z) 2" for x y z
    by (simp add: A_contribution_closed spec_intrinsic_closed rotation_matrix_intrinsic
        row3_def ent_def)
  have "calculate_A_contributions angles =
       map (\<lambda>(ax, ay, az). row3 (spec_intrinsic ax ay az) 2) angles"
    unfolding calculate_A_contributions_def by (rule map_cong) (auto simp: row)
  then show ?thesis
    by (simp add: row[symmetric] A_contribution_closed mult.commute)
qed

text \<open>A tilt of 45 degrees about x and y: all three weights are different from zero.\<close>

lemma weights_at_45:
  "calculate_A_contributions [(45, 45, 0)] = [[- (sqrt 2 / 2), 1 / 2, 1 / 2]]"
proof -
  have d: "deg 45 = pi / 4" by (simp add: deg_def)
  have "sqrt 2 / 2 * (sqrt 2 / 2) = (1 / 2 :: real)" by simp
  then show ?thesis
    by (simp add: calculate_A_contributions_def A_contribution_closed d sin_45 cos_45)
qed

section \<open>Properties of the angle scheme generator\<close>

lemma np_linspace_float: "np_linspace a b (FloatCount x) = Inl TypeError"
  by (simp add: np_linspace_def)

text \<open>The two places where the source passes an unconverted quotient as a count.\<close>

lemma mode_quad_gamma_lt_90:
  "gamma < 90 \<Longrightarrow> mode_quad n_tilt alpha beta gamma ''gamma'' = Inl TypeError"
  by (simp add: mode_quad_def Let_def np_linspace_float bindE_def)

lemma mode_dist_alpha_90:
  "dist_n2 \<noteq> 0 \<Longrightarrow> 0 \<le> py_int (real_of_int n_tilt / real_of_int dist_n2) \<Longrightarrow>
   mode_dist n_tilt 90 beta gamma dist_n2 tilt2 = Inl TypeError"
  by (simp add: mode_dist_def py_truediv_def np_linspace_float bindE_def np_linspace_def)

text \<open>The sibling branch \<open>gamma \<ge> 90\<close> converts with \<^verbatim>\<open>int\<close> and returns four sub-series.\<close>

lemma quad_gamma_ge_90_length:
  assumes "90 \<le> gamma" "0 \<le> n_tilt"
  shows "\<exists>angles. mode_quad n_tilt alpha beta gamma ''gamma'' = Inr angles
           \<and> int (length angles) = 4 * py_int (real_of_int n_tilt / 4)"
proof -
  have "0 \<le> py_int (real_of_int n_tilt / 4)" using assms by (simp add: py_int_def)
  then show ?thesis using assms
    by (auto simp: mode_quad_def Let_def np_linspace_def bindE_def sweep_x_def)
qed

text \<open>
  Claim C7 says that every count obtained by dividing \<open>n_tilt\<close> is floored before it is
  used as a sequence length, in particular in both branches of the quad mode with
  secondary axis gamma, so that the generator never fails on a non-integer count.
  In the branch \<open>gamma < 90\<close> the source passes \<^verbatim>\<open>n_tilt/4\<close> itself: with \<open>n_tilt = 40\<close>
  and \<open>gamma = 60\<close> the count is the float \<open>10.0\<close> and the call raises \<^verbatim>\<open>TypeError\<close>.
\<close>

theorem quad_gamma_unfloored_count:
  "generate_angles (\<lambda>k. 0) ''quad'' 40 70 40 60 8 ''gamma'' = Inl TypeError"
  by (simp add: generate_angles_def mode_quad_gamma_lt_90)

text \<open>
  Claim C8 says that a call whose mode is not one of the enumerated ones is rejected
  with an error.  The source has no such check: for the mode \<open>spiral\<close> no block runs and
  the empty list is returned.
\<close>

theorem unknown_mode_not_rejected:
  "\<not> isl (generate_angles (\<lambda>k. 0) ''spiral'' 40 70 40 180 8 ''gamma'')
   \<and> generate_angles (\<lambda>k. 0) ''spiral'' 40 70 40 180 8 ''gamma'' = Inr []"
  by (simp add: generate_angles_def)

lemma concat_map_Nil: "concat (map (\<lambda>i. []) xs) = []"
  by (induction xs) auto

text \<open>
  Claim C8, amended.  A call of \<open>generate_angles\<close> whose mode is none of the eight
  recognised strings, or whose mode is one of \<open>y\<close>, \<open>quad\<close>, \<open>rand\<close>, \<open>sync\<close>, \<open>sx\<close> with a
  secondary axis that is neither \<open>beta\<close> nor \<open>gamma\<close>, is not rejected: it returns the
  empty angle list and raises no error.
\<close>

theorem unknown_mode_empty:
  assumes "mode \<notin> {''x'', ''y'', ''dual'', ''quad'', ''rand'', ''sync'', ''sx'', ''dist''}
           \<or> (mode \<in> {''y'', ''quad'', ''rand'', ''sync'', ''sx''} \<and> tilt2 \<notin> {''beta'', ''gamma''})"
  shows "generate_angles rnd mode n_tilt alpha beta gamma dist_n2 tilt2 = Inr []"
  using assms
  by (auto simp: generate_angles_def mode_y_def mode_quad_def mode_rand_def mode_sync_def
      mode_sx_def Let_def concat_map_Nil)

theorem unknown_mode_empty_witness:
  "''helix'' \<notin> {''x'', ''y'', ''dual'', ''quad'', ''rand'', ''sync'', ''sx'', ''dist''}
   \<and> generate_angles (\<lambda>k. 1 / 2) ''helix'' 40 70 40 180 8 ''beta'' = Inr []"
proof -
  have h: "''helix'' \<notin> {''x'', ''y'', ''dual'', ''quad'', ''rand'', ''sync'', ''sx'', ''dist''}"
    by simp
  have r: "generate_angles (\<lambda>k. 1 / 2) ''helix'' 40 70 40 180 8 ''beta'' = Inr []"
    by (rule unknown_mode_empty) (rule disjI1, rule h)
  show ?thesis
    by (rule conjI[OF h r])
qed

section \<open>Properties of the decontamination step\<close>

lemma bindE_Inr [simp]: "bindE (Inr x) f = f x"
  by (simp add: bindE_def)

lemma bindE_Inl [simp]: "bindE (Inl e) f = Inl e"
  by (simp add: bindE_def)

lemma weight_loop_ok:
  "i + length ws \<le> dim1 projs \<Longrightarrow>
   \<exists>ps. weight_loop projs i ws = Inr ps \<and> length ps = length ws \<and>
        (\<forall>j < length ws. ps ! j =
           \<lparr>len0 = dim0 projs, len1 = dim2 projs,
            pixel = \<lambda>r c. vmul (entry projs r (i + j) c) (ws ! j)\<rparr>)"
proof (induction ws arbitrary: i)
  case Nil
  then show ?case by simp
next
  case (Cons w ws)
  from Cons.prems have "Suc i + length ws \<le> dim1 projs" by simp
  from Cons.IH[OF this] obtain ps where
    ps: "weight_loop projs (Suc i) ws = Inr ps" "length ps = length ws"
    "\<forall>j < length ws. ps ! j = \<lparr>len0 = dim0 projs, len1 = dim2 projs,
            pixel = \<lambda>r c. vmul (entry projs r (Suc i + j) c) (ws ! j)\<rparr>"
    by blast
  from Cons.prems have i: "i < dim1 projs" by simp
  have "weight_loop projs i (w # ws) = Inr (scale_img \<lparr>len0 = dim0 projs, len1 = dim2 projs,
      pixel = \<lambda>r c. entry projs r i c\<rparr> w # ps)"
    using i ps(1) by (simp add: slice_tilt_def)
  moreover have "\<forall>j < length (w # ws). (scale_img \<lparr>len0 = dim0 projs, len1 = dim2 projs,
      pixel = \<lambda>r c. entry projs r i c\<rparr> w # ps) ! j =
        \<lparr>len0 = dim0 projs, len1 = dim2 projs,
            pixel = \<lambda>r c. vmul (entry projs r (i + j) c) ((w # ws) ! j)\<rparr>"
  proof (intro allI impI)
    fix j assume "j < length (w # ws)"
    then show "(scale_img \<lparr>len0 = dim0 projs, len1 = dim2 projs,
      pixel = \<lambda>r c. entry projs r i c\<rparr> w # ps) ! j =
        \<lparr>len0 = dim0 projs, len1 = dim2 projs,
            pixel = \<lambda>r c. vmul (entry projs r (i + j) c) ((w # ws) ! j)\<rparr>"
      using ps(3) by (cases j) (simp_all add: scale_img_def)
  qed
  ultimately show ?case using ps(2) by simp
qed

lemma weight_phases_ok:
  assumes "ws \<noteq> []" "length ws \<le> dim1 projs"
  shows "\<exists>a. weight_phases projs ws = Inr a \<and> dim0 a = dim0 projs \<and> dim1 a = length ws \<and>
             dim2 a = dim2 projs \<and>
             (\<forall>t < length ws. \<forall>r c. entry a r t c = vmul (entry projs r t c) (ws ! t))"
proof -
  from weight_loop_ok[of 0 ws projs] assms obtain ps where
    ps: "weight_loop projs 0 ws = Inr ps" "length ps = length ws"
    "\<forall>j < length ws. ps ! j = \<lparr>len0 = dim0 projs, len1 = dim2 projs,
            pixel = \<lambda>r c. vmul (entry projs r (0 + j) c) (ws ! j)\<rparr>"
    by auto
  have ne: "ps \<noteq> []" using ps(2) assms(1) by auto
  have hd: "hd ps = ps ! 0" using ne by (simp add: hd_conv_nth)
  have "0 < length ws" using assms(1) by simp
  with ps(3) have p0: "ps ! 0 = \<lparr>len0 = dim0 projs, len1 = dim2 projs,
            pixel = \<lambda>r c. vmul (entry projs r 0 c) (ws ! 0)\<rparr>" by auto
  show ?thesis
    using ps ne hd p0 by (simp add: weight_phases_def np_transpose_102_def)
qed

lemma weight_phases_empty: "weight_phases projs [] = Inl ValueError"
  by (simp add: weight_phases_def np_transpose_102_def)

lemma bidx_id: "i < m \<Longrightarrow> bidx m i = i"
  by (auto simp: bidx_def)

lemma np_sub_same_shape:
  assumes "dim0 b = dim0 a" "dim1 b = dim1 a" "dim2 b = dim2 a"
  shows "\<exists>d. np_sub a b = Inr d \<and> dim0 d = dim0 a \<and> dim1 d = dim1 a \<and> dim2 d = dim2 a \<and>
            (\<forall>i < dim0 a. \<forall>j < dim1 a. \<forall>k < dim2 a.
               entry d i j k = vsub (entry a i j k) (entry b i j k))"
  using assms by (simp add: np_sub_def bdim_def bidx_id)

lemma np_col_ok:
  assumes "ws \<noteq> []" "\<forall>w \<in> set ws. length w = 3" "k < 3"
  shows "np_col ws k = Inr (map (\<lambda>w. w ! k) ws)"
  using assms by (auto simp: np_col_def column_def)

lemma remove_and_reweight_ok:
  assumes ws: "ws \<noteq> []" "\<forall>w \<in> set ws. length w = 3" "length ws = dim1 scaled"
    and k: "k0 < 3" "k1 < 3" "k2 < 3"
    and a1: "dim0 a1 = dim0 scaled" "dim1 a1 = dim1 scaled" "dim2 a1 = dim2 scaled"
    and a2: "dim0 a2 = dim0 scaled" "dim1 a2 = dim1 scaled" "dim2 a2 = dim2 scaled"
  shows "\<exists>a. remove_and_reweight scaled a1 k1 a2 k2 k0 ws = Inr a \<and>
            dim0 a = dim0 scaled \<and> dim1 a = dim1 scaled \<and> dim2 a = dim2 scaled \<and>
            (\<forall>r < dim0 scaled. \<forall>t < dim1 scaled. \<forall>c < dim2 scaled.
               entry a r t c =
                 vmul (vsub (vsub (entry scaled r t c) (vmul (entry a1 r t c) (Fin (ws ! t ! k1))))
                            (vmul (entry a2 r t c) (Fin (ws ! t ! k2))))
                      (recip (ws ! t ! k0)))"
proof -
  let ?T = "dim1 scaled"
  have len: "length (map Fin (map (\<lambda>w. w ! k) ws)) = ?T" "map Fin (map (\<lambda>w. w ! k) ws) \<noteq> []"
    "length (map recip (map (\<lambda>w. w ! k) ws)) = ?T" "map recip (map (\<lambda>w. w ! k) ws) \<noteq> []" for k
    using ws by simp_all
  from weight_phases_ok[OF len(2)[of k1], of a1] len(1)[of k1] a1 obtain p1 where
    p1: "weight_phases a1 (map Fin (map (\<lambda>w. w ! k1) ws)) = Inr p1"
    "dim0 p1 = dim0 scaled" "dim1 p1 = ?T" "dim2 p1 = dim2 scaled"
    "\<forall>t < ?T. \<forall>r c. entry p1 r t c = vmul (entry a1 r t c) (Fin (ws ! t ! k1))"
    using ws(3) by auto
  from np_sub_same_shape[of p1 scaled] p1 obtain d1 where
    d1: "np_sub scaled p1 = Inr d1" "dim0 d1 = dim0 scaled" "dim1 d1 = ?T" "dim2 d1 = dim2 scaled"
    "\<forall>i < dim0 scaled. \<forall>j < ?T. \<forall>k < dim2 scaled.
        entry d1 i j k = vsub (entry scaled i j k) (entry p1 i j k)"
    by auto
  from weight_phases_ok[OF len(2)[of k2], of a2] len(1)[of k2] a2 obtain p2 where
    p2: "weight_phases a2 (map Fin (map (\<lambda>w. w ! k2) ws)) = Inr p2"
    "dim0 p2 = dim0 scaled" "dim1 p2 = ?T" "dim2 p2 = dim2 scaled"
    "\<forall>t < ?T. \<forall>r c. entry p2 r t c = vmul (entry a2 r t c) (Fin (ws ! t ! k2))"
    using ws(3) by auto
  from np_sub_same_shape[of p2 d1] p2 d1 obtain d2 where
    d2: "np_sub d1 p2 = Inr d2" "dim0 d2 = dim0 scaled" "dim1 d2 = ?T" "dim2 d2 = dim2 scaled"
    "\<forall>i < dim0 scaled. \<forall>j < ?T. \<forall>k < dim2 scaled.
        entry d2 i j k = vsub (entry d1 i j k) (entry p2 i j k)"
    by auto
  from weight_phases_ok[OF len(4)[of k0], of d2] len(3)[of k0] d2 obtain a where
    a: "weight_phases d2 (map recip (map (\<lambda>w. w ! k0) ws)) = Inr a"
    "dim0 a = dim0 scaled" "dim1 a = ?T" "dim2 a = dim2 scaled"
    "\<forall>t < ?T. \<forall>r c. entry a r t c = vmul (entry d2 r t c) (recip (ws ! t ! k0))"
    using ws(3) by auto
  have "remove_and_reweight scaled a1 k1 a2 k2 k0 ws = Inr a"
    using p1(1) d1(1) p2(1) d2(1) a(1) np_col_ok[OF ws(1,2)] k
    by (simp add: remove_and_reweight_def)
  moreover have "\<forall>r < dim0 scaled. \<forall>t < dim1 scaled. \<forall>c < dim2 scaled.
               entry a r t c =
                 vmul (vsub (vsub (entry scaled r t c) (vmul (entry a1 r t c) (Fin (ws ! t ! k1))))
                            (vmul (entry a2 r t c) (Fin (ws ! t ! k2))))
                      (recip (ws ! t ! k0))"
    using a(5) d2(5) d1(5) p1(5) p2(5) by simp
  ultimately show ?thesis using a(2-4) by blast
qed

lemma array_equal_iff:
  "array_equal a b \<longleftrightarrow>
     dim0 a = dim0 b \<and> dim1 a = dim1 b \<and> dim2 a = dim2 b \<and>
     (\<forall>i < dim0 a. \<forall>j < dim1 a. \<forall>k < dim2 a. entry a i j k = entry b i j k)"
  by (auto simp: array_equal_def list_all_iff)

lemma all_finite_iff:
  "all_finite a \<longleftrightarrow> (\<forall>i < dim0 a. \<forall>j < dim1 a. \<forall>k < dim2 a. \<exists>x. entry a i j k = Fin x)"
proof -
  have "is_fin v \<longleftrightarrow> (\<exists>x. v = Fin x)" for v by (cases v) auto
  then show ?thesis by (auto simp: all_finite_def list_all_iff)
qed

lemma phase_const_nonzero: "phi0 \<noteq> 0 \<Longrightarrow> phase_const phi0 \<noteq> 0"
  by (simp add: phase_const_def)

lemma update_weighted_proj_data_ok:
  assumes phi0: "phi0 \<noteq> 0"
    and ws: "ws \<noteq> []" "\<forall>w \<in> set ws. length w = 3" "length ws = dim1 phase"
    and ax: "dim0 ax = dim0 phase" "dim1 ax = dim1 phase" "dim2 ax = dim2 phase"
    and ay: "dim0 ay = dim0 phase" "dim1 ay = dim1 phase" "dim2 ay = dim2 phase"
    and az: "dim0 az = dim0 phase" "dim1 az = dim1 phase" "dim2 az = dim2 phase"
  shows "\<exists>nx ny nz. update_weighted_proj_data phi0 phase ax ay az ws = Inr (nx, ny, nz) \<and>
      dim0 nx = dim0 phase \<and> dim1 nx = dim1 phase \<and> dim2 nx = dim2 phase \<and>
      dim0 ny = dim0 phase \<and> dim1 ny = dim1 phase \<and> dim2 ny = dim2 phase \<and>
      dim0 nz = dim0 phase \<and> dim1 nz = dim1 phase \<and> dim2 nz = dim2 phase \<and>
      (\<forall>r < dim0 phase. \<forall>t < dim1 phase. \<forall>c < dim2 phase.
         entry nx r t c =
           vmul (vsub (vsub (scaled_entry phi0 phase r t c) (vmul (entry ay r t c) (Fin (ws ! t ! 1))))
                      (vmul (entry az r t c) (Fin (ws ! t ! 2))))
                (recip (ws ! t ! 0)) \<and>
         entry ny r t c =
           vmul (vsub (vsub (scaled_entry phi0 phase r t c) (vmul (entry ax r t c) (Fin (ws ! t ! 0))))
                      (vmul (entry az r t c) (Fin (ws ! t ! 2))))
                (recip (ws ! t ! 1)) \<and>
         entry nz r t c =
           vmul (vsub (vsub (scaled_entry phi0 phase r t c) (vmul (entry ay r t c) (Fin (ws ! t ! 1))))
                      (vmul (entry ax r t c) (Fin (ws ! t ! 0))))
                (recip (ws ! t ! 2)))"
proof -
  let ?s = "map_array (\<lambda>v. vdiv (vmul v (Fin 1)) (phase_const phi0)) phase"
  have s: "dim0 ?s = dim0 phase" "dim1 ?s = dim1 phase" "dim2 ?s = dim2 phase"
    "entry ?s r t c = scaled_entry phi0 phase r t c" for r t c
    by (simp_all add: map_array_def scaled_entry_def)
  have k: "(0::nat) < 3" "(1::nat) < 3" "(2::nat) < 3" by simp_all
  from remove_and_reweight_ok[of ws ?s 0 1 2 ay az] ws ay az s obtain nx where
    nx: "remove_and_reweight ?s ay 1 az 2 0 ws = Inr nx"
    "dim0 nx = dim0 phase" "dim1 nx = dim1 phase" "dim2 nx = dim2 phase"
    "\<forall>r < dim0 phase. \<forall>t < dim1 phase. \<forall>c < dim2 phase. entry nx r t c =
           vmul (vsub (vsub (scaled_entry phi0 phase r t c) (vmul (entry ay r t c) (Fin (ws ! t ! 1))))
                      (vmul (entry az r t c) (Fin (ws ! t ! 2)))) (recip (ws ! t ! 0))"
    by auto
  from remove_and_reweight_ok[of ws ?s 1 0 2 ax az] ws ax az s obtain ny where
    ny: "remove_and_reweight ?s ax 0 az 2 1 ws = Inr ny"
    "dim0 ny = dim0 phase" "dim1 ny = dim1 phase" "dim2 ny = dim2 phase"
    "\<forall>r < dim0 phase. \<forall>t < dim1 phase. \<forall>c < dim2 phase. entry ny r t c =
           vmul (vsub (vsub (scaled_entry phi0 phase r t c) (vmul (entry ax r t c) (Fin (ws ! t ! 0))))
                      (vmul (entry az r t c) (Fin (ws ! t ! 2)))) (recip (ws ! t ! 1))"
    by auto
  from remove_and_reweight_ok[of ws ?s 2 1 0 ay ax] ws ax ay s obtain nz where
    nz: "remove_and_reweight ?s ay 1 ax 0 2 ws = Inr nz"
    "dim0 nz = dim0 phase" "dim1 nz = dim1 phase" "dim2 nz = dim2 phase"
    "\<forall>r < dim0 phase. \<forall>t < dim1 phase. \<forall>c < dim2 phase. entry nz r t c =
           vmul (vsub (vsub (scaled_entry phi0 phase r t c) (vmul (entry ay r t c) (Fin (ws ! t ! 1))))
                      (vmul (entry ax r t c) (Fin (ws ! t ! 0)))) (recip (ws ! t ! 2))"
    by auto
  have "update_weighted_proj_data phi0 phase ax ay az ws = Inr (nx, ny, nz)"
    using phi0 nx(1) ny(1) nz(1) by (simp add: update_weighted_proj_data_def Let_def)
  then show ?thesis
    using nx(2-) ny(2-) nz(2-) by blast
qed

lemma mix_entry_fin:
  assumes "entry Ax r t c = Fin x" "entry Ay r t c = Fin y" "entry Az r t c = Fin z"
  shows "entry (mix phi0 ws Ax Ay Az) r t c =
           Fin (phase_const phi0 * (ws ! t ! 0 * x + ws ! t ! 1 * y + ws ! t ! 2 * z))"
  using assms by (simp add: mix_def)

lemma mix_dims:
  "dim0 (mix phi0 ws Ax Ay Az) = dim0 Ax" "dim1 (mix phi0 ws Ax Ay Az) = dim1 Ax"
  "dim2 (mix phi0 ws Ax Ay Az) = dim2 Ax"
  by (simp_all add: mix_def)

text \<open>
  Claim C1.  Let the weight triples be non-zero at every angle and let \<open>Ax\<close>, \<open>Ay\<close>, \<open>Az\<close>
  be component stacks of one shape with as many tilts as there are angles.  If the phase
  stack is \<open>const \<cdot> (wx \<cdot> Ax + wy \<cdot> Ay + wz \<cdot> Az)\<close> at every angle, then
  \<open>update_weighted_proj_data\<close>, applied to the phase stack and the three component stacks,
  returns \<open>(Ax, Ay, Az)\<close> entry for entry, and mixing its output again gives the phase
  stack back, in exact arithmetic.
\<close>

theorem decontamination_round_trip:
  assumes shape: "dim0 Ay = dim0 Ax" "dim1 Ay = dim1 Ax" "dim2 Ay = dim2 Ax"
                 "dim0 Az = dim0 Ax" "dim1 Az = dim1 Ax" "dim2 Az = dim2 Ax"
    and fin: "all_finite Ax" "all_finite Ay" "all_finite Az"
    and ws: "ws \<noteq> []" "length ws = dim1 Ax"
            "\<forall>w \<in> set ws. length w = 3 \<and> w ! 0 \<noteq> 0 \<and> w ! 1 \<noteq> 0 \<and> w ! 2 \<noteq> 0"
    and phi0: "phi0 \<noteq> 0"
    and phase: "array_equal phase_projs (mix phi0 ws Ax Ay Az)"
  shows "\<exists>new_x new_y new_z.
           update_weighted_proj_data phi0 phase_projs Ax Ay Az ws = Inr (new_x, new_y, new_z)
           \<and> array_equal new_x Ax \<and> array_equal new_y Ay \<and> array_equal new_z Az
           \<and> array_equal (mix phi0 ws new_x new_y new_z) phase_projs"
proof -
  have pd: "dim0 phase_projs = dim0 Ax" "dim1 phase_projs = dim1 Ax" "dim2 phase_projs = dim2 Ax"
    using phase by (simp_all add: array_equal_iff mix_dims)
  have w3: "\<forall>w \<in> set ws. length w = 3" using ws(3) by blast
  have l: "length ws = dim1 phase_projs" using ws(2) pd(2) by simp
  have sx: "dim0 Ax = dim0 phase_projs" "dim1 Ax = dim1 phase_projs" "dim2 Ax = dim2 phase_projs"
    using pd by simp_all
  have sy: "dim0 Ay = dim0 phase_projs" "dim1 Ay = dim1 phase_projs" "dim2 Ay = dim2 phase_projs"
    using pd shape by simp_all
  have sz: "dim0 Az = dim0 phase_projs" "dim1 Az = dim1 phase_projs" "dim2 Az = dim2 phase_projs"
    using pd shape by simp_all
  from update_weighted_proj_data_ok[OF phi0 ws(1) w3 l sx sy sz]
  obtain nx ny nz where all:
    "update_weighted_proj_data phi0 phase_projs Ax Ay Az ws = Inr (nx, ny, nz) \<and>
      dim0 nx = dim0 phase_projs \<and> dim1 nx = dim1 phase_projs \<and> dim2 nx = dim2 phase_projs \<and>
      dim0 ny = dim0 phase_projs \<and> dim1 ny = dim1 phase_projs \<and> dim2 ny = dim2 phase_projs \<and>
      dim0 nz = dim0 phase_projs \<and> dim1 nz = dim1 phase_projs \<and> dim2 nz = dim2 phase_projs \<and>
      (\<forall>r < dim0 phase_projs. \<forall>t < dim1 phase_projs. \<forall>c < dim2 phase_projs.
         entry nx r t c =
           vmul (vsub (vsub (scaled_entry phi0 phase_projs r t c) (vmul (entry Ay r t c) (Fin (ws ! t ! 1))))
                      (vmul (entry Az r t c) (Fin (ws ! t ! 2))))
                (recip (ws ! t ! 0)) \<and>
         entry ny r t c =
           vmul (vsub (vsub (scaled_entry phi0 phase_projs r t c) (vmul (entry Ax r t c) (Fin (ws ! t ! 0))))
                      (vmul (entry Az r t c) (Fin (ws ! t ! 2))))
                (recip (ws ! t ! 1)) \<and>
         entry nz r t c =
           vmul (vsub (vsub (scaled_entry phi0 phase_projs r t c) (vmul (entry Ay r t c) (Fin (ws ! t ! 1))))
                      (vmul (entry Ax r t c) (Fin (ws ! t ! 0))))
                (recip (ws ! t ! 2)))"
    by (elim exE) (rule that)
  from all have r: "update_weighted_proj_data phi0 phase_projs Ax Ay Az ws = Inr (nx, ny, nz)"
    by (rule conjunct1)
  from all pd have dx: "dim0 nx = dim0 Ax" "dim1 nx = dim1 Ax" "dim2 nx = dim2 Ax"
    and dy: "dim0 ny = dim0 Ax" "dim1 ny = dim1 Ax" "dim2 ny = dim2 Ax"
    and dz: "dim0 nz = dim0 Ax" "dim1 nz = dim1 Ax" "dim2 nz = dim2 Ax"
    by simp_all
  from all pd have e: "\<forall>r < dim0 Ax. \<forall>t < dim1 Ax. \<forall>c < dim2 Ax.
         entry nx r t c =
           vmul (vsub (vsub (scaled_entry phi0 phase_projs r t c) (vmul (entry Ay r t c) (Fin (ws ! t ! 1))))
                      (vmul (entry Az r t c) (Fin (ws ! t ! 2))))
                (recip (ws ! t ! 0)) \<and>
         entry ny r t c =
           vmul (vsub (vsub (scaled_entry phi0 phase_projs r t c) (vmul (entry Ax r t c) (Fin (ws ! t ! 0))))
                      (vmul (entry Az r t c) (Fin (ws ! t ! 2))))
                (recip (ws ! t ! 1)) \<and>
         entry nz r t c =
           vmul (vsub (vsub (scaled_entry phi0 phase_projs r t c) (vmul (entry Ay r t c) (Fin (ws ! t ! 1))))
                      (vmul (entry Ax r t c) (Fin (ws ! t ! 0))))
                (recip (ws ! t ! 2))"
    by simp
  have k0: "phase_const phi0 \<noteq> 0" using phi0 by (rule phase_const_nonzero)
  have pt: "entry nx r t c = entry Ax r t c \<and> entry ny r t c = entry Ay r t c
            \<and> entry nz r t c = entry Az r t c
            \<and> entry (mix phi0 ws nx ny nz) r t c = entry phase_projs r t c"
    if rtc: "r < dim0 Ax" "t < dim1 Ax" "c < dim2 Ax" for r t c
  proof -
    from fin rtc shape obtain x y z where
      xyz: "entry Ax r t c = Fin x" "entry Ay r t c = Fin y" "entry Az r t c = Fin z"
      unfolding all_finite_iff by metis
    have "ws ! t \<in> set ws" using rtc(2) ws(2) by simp
    with ws(3) have nz0: "ws ! t ! 0 \<noteq> 0" "ws ! t ! 1 \<noteq> 0" "ws ! t ! 2 \<noteq> 0" by auto
    have ph: "entry phase_projs r t c =
        Fin (phase_const phi0 * (ws ! t ! 0 * x + ws ! t ! 1 * y + ws ! t ! 2 * z))"
      using phase rtc pd mix_entry_fin[OF xyz] by (simp add: array_equal_iff)
    have sc: "scaled_entry phi0 phase_projs r t c =
        Fin (ws ! t ! 0 * x + ws ! t ! 1 * y + ws ! t ! 2 * z)"
      using k0 by (simp add: scaled_entry_def ph)
    from e rtc have
      ex: "entry nx r t c =
           vmul (vsub (vsub (scaled_entry phi0 phase_projs r t c) (vmul (entry Ay r t c) (Fin (ws ! t ! 1))))
                      (vmul (entry Az r t c) (Fin (ws ! t ! 2))))
                (recip (ws ! t ! 0))"
      and ey: "entry ny r t c =
           vmul (vsub (vsub (scaled_entry phi0 phase_projs r t c) (vmul (entry Ax r t c) (Fin (ws ! t ! 0))))
                      (vmul (entry Az r t c) (Fin (ws ! t ! 2))))
                (recip (ws ! t ! 1))"
      and ez: "entry nz r t c =
           vmul (vsub (vsub (scaled_entry phi0 phase_projs r t c) (vmul (entry Ay r t c) (Fin (ws ! t ! 1))))
                      (vmul (entry Ax r t c) (Fin (ws ! t ! 0))))
                (recip (ws ! t ! 2))"
      by blast+
    have x': "entry nx r t c = Fin x"
      using nz0 by (simp add: ex sc xyz recip_def field_simps)
    have y': "entry ny r t c = Fin y"
      using nz0 by (simp add: ey sc xyz recip_def field_simps)
    have z': "entry nz r t c = Fin z"
      using nz0 by (simp add: ez sc xyz recip_def field_simps)
    show ?thesis
      using mix_entry_fin[OF x' y' z', of phi0 ws] by (simp add: x' y' z' xyz ph)
  qed
  have "array_equal nx Ax" "array_equal ny Ay" "array_equal nz Az"
    using pt dx dy dz shape by (simp_all add: array_equal_iff)
  moreover have "array_equal (mix phi0 ws nx ny nz) phase_projs"
    using pt dx pd by (simp add: array_equal_iff mix_dims)
  ultimately show ?thesis using r by blast
qed

theorem decontamination_round_trip_witness:
  "all_finite (single 3) \<and> all_finite (single 6) \<and> all_finite (single 9)
   \<and> [[1/3, 2/3, 2/3 :: real]] \<noteq> []
   \<and> length [[1/3, 2/3, 2/3 :: real]] = dim1 (single 3)
   \<and> length [1/3, 2/3, 2/3 :: real] = 3
   \<and> [1/3, 2/3, 2/3 :: real] ! 0 \<noteq> 0 \<and> [1/3, 2/3, 2/3 :: real] ! 1 \<noteq> 0
   \<and> [1/3, 2/3, 2/3 :: real] ! 2 \<noteq> 0
   \<and> array_equal (single (- 11 / 2)) (mix 1 [[1/3, 2/3, 2/3]] (single 3) (single 6) (single 9))
   \<and> (\<exists>new_x new_y new_z.
         update_weighted_proj_data 1 (single (- 11 / 2)) (single 3) (single 6) (single 9)
            [[1/3, 2/3, 2/3]] = Inr (new_x, new_y, new_z)
         \<and> array_equal new_x (single 3) \<and> array_equal new_y (single 6)
         \<and> array_equal new_z (single 9)
         \<and> array_equal (mix 1 [[1/3, 2/3, 2/3]] new_x new_y new_z) (single (- 11 / 2)))"
proof -
  have f: "all_finite (single 3)" "all_finite (single 6)" "all_finite (single 9)"
    by (simp_all add: all_finite_def single_def)
  have s: "dim0 (single 6) = dim0 (single 3)" "dim1 (single 6) = dim1 (single 3)"
    "dim2 (single 6) = dim2 (single 3)" "dim0 (single 9) = dim0 (single 3)"
    "dim1 (single 9) = dim1 (single 3)" "dim2 (single 9) = dim2 (single 3)"
    by (simp_all add: single_def)
  have w: "[[1/3, 2/3, 2/3 :: real]] \<noteq> []" "length [[1/3, 2/3, 2/3 :: real]] = dim1 (single 3)"
    "\<forall>w \<in> set [[1/3, 2/3, 2/3 :: real]]. length w = 3 \<and> w ! 0 \<noteq> 0 \<and> w ! 1 \<noteq> 0 \<and> w ! 2 \<noteq> 0"
    by (simp_all add: single_def)
  have p: "(1::real) \<noteq> 0" by simp
  have m: "array_equal (single (- 11 / 2)) (mix 1 [[1/3, 2/3, 2/3]] (single 3) (single 6) (single 9))"
    by (simp add: array_equal_def mix_def single_def phase_const_def)
  have e: "length [1/3, 2/3, 2/3 :: real] = 3" "[1/3, 2/3, 2/3 :: real] ! 0 \<noteq> 0"
    "[1/3, 2/3, 2/3 :: real] ! 1 \<noteq> 0" "[1/3, 2/3, 2/3 :: real] ! 2 \<noteq> 0"
    by simp_all
  from decontamination_round_trip[OF s f w p m] f w(1,2) e m show ?thesis
    by (intro conjI)
qed

section \<open>Properties of the reconstruction step\<close>

lemma threshold_loop_none:
  "\<forall>w \<in> set ws. \<not> \<bar>w\<bar> > thresh \<Longrightarrow> threshold_loop a_projs angles thresh i ws = Inr ([], [])"
  by (induction ws arbitrary: i) auto

text \<open>
  Claim C4.  When the threshold is strictly above the absolute weight of every angle,
  no slice is selected and \<open>recon_step\<close> fails before the backend is called: the call
  raises (NumPy's \<^verbatim>\<open>ValueError\<close> on transposing the empty selection, or
  \<^verbatim>\<open>ZeroDivisionError\<close> when the mesh has no voxel along its first axis), and the state
  of the backend is the one the call started with, whatever the backend is.
\<close>

theorem recon_step_empty_selection:
  assumes "\<forall>w \<in> set ws. \<bar>w\<bar> < thresh"
  shows "recon_step B b a_projs ws angles (p1, p2, nn) thresh opts =
           (Inl (if fst nn = 0 then ZeroDivisionError else ValueError), b)"
proof -
  have "\<forall>w \<in> set ws. \<not> \<bar>w\<bar> > thresh" using assms by auto
  then have "threshold_loop a_projs angles thresh 0 ws = Inr ([], [])"
    by (rule threshold_loop_none)
  then show ?thesis
    by (simp add: recon_step_def np_transpose_102_def)
qed

theorem recon_step_empty_selection_witness:
  "\<bar>1 / 2 :: real\<bar> < 7 / 10 \<and> \<bar>- 3 / 10 :: real\<bar> < 7 / 10
   \<and> recon_step counting_backend 0 (single 1) [1 / 2, - 3 / 10] [(0, 0, 0), (30, 0, 0)]
        ((0, 0, 0), (100, 100, 100), (100, 100, 100)) (7 / 10) default_opts
       = (Inl ValueError, 0)"
proof -
  have h: "\<forall>w \<in> set [1 / 2, - 3 / 10 :: real]. \<bar>w\<bar> < 7 / 10" by simp
  from recon_step_empty_selection[OF h, of counting_backend 0 "single 1"
      "[(0, 0, 0), (30, 0, 0)]" "(0, 0, 0)" "(100, 100, 100)" "(100, 100, 100)" default_opts] h
  show ?thesis by simp
qed

text \<open>The thresholding loop keeps the slices and angles at the indices \<open>selected\<close>.\<close>

lemma selected_Cons:
  "selected (w # ws) thresh =
     (if \<bar>w\<bar> > thresh then [0] else []) @ map Suc (selected ws thresh)"
proof -
  have "[0..<length (w # ws)] = 0 # map Suc [0..<length ws]"
    by (simp add: upt_conv_Cons map_Suc_upt del: upt_Suc)
  then show ?thesis
    by (simp add: selected_def filter_map comp_def)
qed

lemma threshold_loop_selected:
  "threshold_loop a_projs angles thresh i ws = Inr (ps, sel) \<Longrightarrow>
   sel = map (\<lambda>j. angles ! (i + j)) (selected ws thresh)
   \<and> map Inr ps = map (\<lambda>j. slice_tilt a_projs (i + j)) (selected ws thresh)"
proof (induction ws arbitrary: i ps sel)
  case Nil
  then show ?case by (simp add: selected_def)
next
  case (Cons w ws)
  show ?case
  proof (cases "\<bar>w\<bar> > thresh")
    case False
    with Cons.prems have "threshold_loop a_projs angles thresh (Suc i) ws = Inr (ps, sel)"
      by simp
    from Cons.IH[OF this] False show ?thesis
      by (simp add: selected_Cons comp_def)
  next
    case True
    with Cons.prems obtain p ps' sel' where
      p: "slice_tilt a_projs i = Inr p" and i: "i < length angles"
      and rest: "threshold_loop a_projs angles thresh (Suc i) ws = Inr (ps', sel')"
      and eq: "ps = p # ps'" "sel = angles ! i # sel'"
      by (auto simp: bindE_def split: sum.splits if_splits prod.splits)
    from Cons.IH[OF rest] True p eq show ?thesis
      by (simp add: selected_Cons comp_def)
  qed
qed


lemma vmul_NonFin [simp]: "vmul v NonFin = NonFin"
  by (cases v) simp_all




section \<open>The threshold schedule\<close>

lemma py_index_from_end:
  "i < length xs \<Longrightarrow> py_index xs (- (int i + 1)) = Inr (xs ! (length xs - 1 - i))"
proof -
  assume i: "i < length xs"
  then have "nat (int (length xs) + (- (int i + 1))) = length xs - 1 - i" by simp
  with i show ?thesis by (simp add: py_index_def Let_def)
qed

lemma loop_thresholds_ok:
  "\<forall>i \<in> set is. i < length pts \<Longrightarrow>
   loop_thresholds pts is = Inr (map (\<lambda>i. pts ! (length pts - 1 - i)) is)"
proof (induction "is")
  case Nil
  then show ?case by simp
next
  case (Cons i "is")
  then have "i < length pts" by simp
  from py_index_from_end[OF this] Cons show ?case by simp
qed

lemma loop_thresholds_rev:
  "loop_thresholds pts [0..<length pts] = Inr (rev pts)"
proof -
  have "map (\<lambda>i. pts ! (length pts - 1 - i)) [0..<length pts] = rev pts"
    by (rule nth_equalityI) (simp_all add: rev_nth)
  then show ?thesis using loop_thresholds_ok[of "[0..<length pts]" pts] by simp
qed

lemma np_linspace_length:
  "0 \<le> n \<Longrightarrow> \<exists>pts. np_linspace a b (IntCount n) = Inr pts \<and> length pts = nat n"
  by (auto simp: np_linspace_def)

lemma thresholds_rev:
  assumes "1 \<le> n"
  shows "\<exists>pts. np_linspace tmin tmax (IntCount (n - 1)) = Inr pts \<and> length pts = nat (n - 1)
           \<and> thresholds n (tmin, tmax) = Inr (tmax # rev pts)"
proof -
  from np_linspace_length[of "n - 1" tmin tmax] assms obtain pts where
    p: "np_linspace tmin tmax (IntCount (n - 1)) = Inr pts" "length pts = nat (n - 1)"
    by auto
  have "loop_thresholds pts [0..<nat (n - 1)] = Inr (rev pts)"
    using loop_thresholds_rev[of pts] p(2) by simp
  with p show ?thesis by (simp add: thresholds_def)
qed

lemma thresholds_2: "thresholds 2 (tmin, tmax) = Inr [tmax, tmin]"
  by (simp add: thresholds_def np_linspace_def py_index_def)

lemma np_linspace_nth:
  assumes "2 \<le> n" "i < nat n"
  shows "\<exists>pts. np_linspace a b (IntCount n) = Inr pts \<and> length pts = nat n
           \<and> pts ! i = a + real i * ((b - a) / real (nat n - 1))"
proof -
  have "real_of_int (n - 1) = real (nat n - 1)" using assms(1) by (simp add: of_nat_diff)
  then show ?thesis using assms by (simp add: np_linspace_def)
qed

text \<open>
  From three major iterations on the schedule is the intended one: the first major
  iteration uses \<open>tmax\<close>, the following ones use the values of the linear schedule from
  \<open>tmin\<close> to \<open>tmax\<close> in decreasing order, so that the second uses \<open>tmax\<close> again and the
  last uses \<open>tmin\<close>, and the whole sequence is non-increasing.
\<close>

lemma threshold_schedule:
  assumes n: "3 \<le> n" and le: "tmin \<le> tmax"
  shows "\<exists>ts pts. thresholds n (tmin, tmax) = Inr ts
           \<and> np_linspace tmin tmax (IntCount (n - 1)) = Inr pts
           \<and> length ts = nat n \<and> length pts = nat n - 1
           \<and> ts ! 0 = tmax
           \<and> tl ts = rev pts
           \<and> ts ! 1 = tmax
           \<and> last ts = tmin
           \<and> sorted_wrt (\<lambda>a b. a \<ge> b) ts"
proof -
  let ?m = "nat (n - 1)"
  have m: "2 \<le> ?m" using n by simp
  from thresholds_rev[of n tmin tmax] n obtain pts where
    p: "np_linspace tmin tmax (IntCount (n - 1)) = Inr pts" "length pts = ?m"
    and ts: "thresholds n (tmin, tmax) = Inr (tmax # rev pts)"
    by auto
  let ?step = "(tmax - tmin) / real (?m - 1)"
  have step: "0 \<le> ?step" using le by simp
  have nth: "pts ! i = tmin + real i * ?step" if "i < ?m" for i
    using np_linspace_nth[of "n - 1" i tmin tmax] n that p(1) by auto
  have first: "pts ! 0 = tmin" using nth[of 0] m by simp
  have "real (?m - 1) * ?step = tmax - tmin" using m by simp
  then have lastp: "pts ! (?m - 1) = tmax" using nth[of "?m - 1"] m by simp
  have ne: "pts \<noteq> []" using p(2) m by auto
  have mono: "pts ! i \<le> pts ! j" if "i \<le> j" "j < ?m" for i j
  proof -
    have "real i * ?step \<le> real j * ?step"
      using that(1) step by (intro mult_right_mono) simp_all
    then show ?thesis using nth[of i] nth[of j] that by simp
  qed
  have sorted_pts: "sorted pts"
    unfolding sorted_iff_nth_mono using mono p(2) by simp
  have upper: "\<forall>x \<in> set pts. x \<le> tmax"
  proof
    fix x assume "x \<in> set pts"
    then obtain i where i: "i < ?m" "x = pts ! i" using p(2) by (auto simp: in_set_conv_nth)
    with mono[of i "?m - 1"] lastp show "x \<le> tmax" by simp
  qed
  have desc: "sorted_wrt (\<lambda>a b. a \<ge> b) (rev pts)"
    using sorted_pts by (simp add: sorted_wrt_rev)
  have "sorted_wrt (\<lambda>a b. a \<ge> b) (tmax # rev pts)"
    using desc upper by simp
  moreover have "(tmax # rev pts) ! 1 = tmax"
  proof -
    have "0 < length pts" using ne by simp
    then have "rev pts ! 0 = pts ! (length pts - Suc 0)" by (rule rev_nth)
    then show ?thesis using lastp p(2) by simp
  qed
  moreover have "last (tmax # rev pts) = tmin"
    using ne first by (simp add: last_rev hd_conv_nth)
  moreover have "length (tmax # rev pts) = nat n" using p(2) n by simp
  moreover have "length pts = nat n - 1" using p(2) n by simp
  ultimately show ?thesis using ts p(1) by simp
qed

lemma threshold_schedule_example:
  "(3::int) \<le> 4 \<and> (1 / 100 :: real) \<le> 7 / 10
   \<and> thresholds 4 (1 / 100, 7 / 10) = Inr [7 / 10, 7 / 10, 71 / 200, 1 / 100]"
proof -
  have n: "(3::int) \<le> 4" and le: "(1 / 100 :: real) \<le> 7 / 10" by simp_all
  from threshold_schedule[OF n le] obtain ts pts where
    t: "thresholds 4 (1 / 100, 7 / 10) = Inr ts"
    and p: "np_linspace (1 / 100) (7 / 10) (IntCount (4 - 1)) = Inr pts"
    and r: "tl ts = rev pts" "ts ! 0 = (7 / 10 :: real)" "length ts = nat 4"
    by blast
  have "pts = [1 / 100, 71 / 200, 7 / 10]"
    using p by (simp add: np_linspace_def upt_rec)
  with r have "ts = [7 / 10, 7 / 10, 71 / 200, 1 / 100]"
    by (cases ts) simp_all
  with t n le show ?thesis by simp
qed

subsection \<open>The schedule is the one the algorithm runs with\<close>

text \<open>
  A run of \<open>iterative_update_algorithm\<close> that returns its three volumes has called
  \<open>recon_step\<close>, major iteration after major iteration, with exactly the thresholds of
  \<open>thresholds\<close>.
\<close>

lemma major_loop_used:
  "major_loop B phi0 phase_projs angles mesh n_pad opts ws pts is recon used b
     = ((Inr v, used'), b') \<Longrightarrow>
   \<exists>later. loop_thresholds pts is = Inr later \<and> used' = used @ later"
proof (induction "is" arbitrary: recon used b)
  case Nil
  then show ?case by simp
next
  case (Cons i "is")
  obtain Ax Ay Az where recon: "recon = (Ax, Ay, Az)" by (cases recon) auto
  from Cons.prems recon obtain thresh where
    th: "py_index pts (- (int i + 1)) = Inr thresh"
    by (auto split: sum.splits)
  from Cons.prems recon th obtain px py pz b1 where
    pr: "generate_A_projection_fast B b (crop n_pad Ax) (crop n_pad Ay) (crop n_pad Az)
           angles mesh = (Inr (px, py, pz), b1)"
    by (auto split: sum.splits prod.splits)
  from Cons.prems recon th pr obtain wx wy wz where
    up: "update_weighted_proj_data phi0 phase_projs (pad n_pad px) (pad n_pad py)
           (pad n_pad pz) ws = Inr (wx, wy, wz)"
    by (auto split: sum.splits prod.splits)
  from Cons.prems recon th pr up obtain recon' b2 where
    rt: "recon_three B b1 wx wy wz ws angles mesh thresh opts = (Inr recon', b2)"
    by (auto split: sum.splits prod.splits)
  from Cons.prems recon th pr up rt have
    "major_loop B phi0 phase_projs angles mesh n_pad opts ws pts is recon' (used @ [thresh])
       (astra_clear B b2) = ((Inr v, used'), b')"
    by simp
  from Cons.IH[OF this] obtain later where
    "loop_thresholds pts is = Inr later" "used' = (used @ [thresh]) @ later"
    by blast
  with th show ?case by simp
qed

lemma iterative_update_algorithm_thresholds:
  assumes "iterative_update_algorithm B b phi0 phase_projs angles mesh n_pad n_full_iter
             n_step_iter alg wt (tmin, tmax) callback = ((Inr v, used), b')"
  shows "thresholds n_full_iter (tmin, tmax) = Inr used"
proof -
  let ?opts = "\<lparr>algorithm = alg, niter = n_step_iter, weight = wt, balance = 1,
                  steps = ''backtrack'', callback_freq = (if callback then 1 else 0)\<rparr>"
  let ?ws = "calculate_A_contributions angles"
  from assms obtain pts where
    p: "np_linspace tmin tmax (IntCount (n_full_iter - 1)) = Inr pts"
    by (auto simp: iterative_update_algorithm_def Let_def split: sum.splits)
  from assms p obtain wx wy wz where
    up: "update_weighted_proj_data phi0 phase_projs (zeros_like phase_projs)
           (zeros_like phase_projs) (zeros_like phase_projs) ?ws = Inr (wx, wy, wz)"
    by (auto simp: iterative_update_algorithm_def Let_def split: sum.splits prod.splits)
  from assms p up obtain recon b1 where
    rt: "recon_three B b wx wy wz ?ws angles mesh tmax ?opts = (Inr recon, b1)"
    by (auto simp: iterative_update_algorithm_def Let_def split: sum.splits prod.splits)
  from assms p up rt have
    "major_loop B phi0 phase_projs angles mesh n_pad ?opts ?ws pts
       [0..<nat (n_full_iter - 1)] recon [tmax] b1 = ((Inr v, used), b')"
    by (simp add: iterative_update_algorithm_def Let_def)
  from major_loop_used[OF this] obtain later where
    "loop_thresholds pts [0..<nat (n_full_iter - 1)] = Inr later" "used = [tmax] @ later"
    by blast
  with p show ?thesis by (simp add: thresholds_def)
qed

subsection \<open>Runs that return\<close>

text \<open>
  When the backend returns a result at every call and every component keeps at least
  one angle, \<open>recon_step\<close> and the three calls of a major iteration return.
\<close>

lemma threshold_loop_ok:
  "i + length ws \<le> dim1 a_projs \<Longrightarrow> i + length ws \<le> length angles \<Longrightarrow>
   \<exists>ps sel. threshold_loop a_projs angles thresh i ws = Inr (ps, sel)"
proof (induction ws arbitrary: i)
  case Nil
  then show ?case by simp
next
  case (Cons w ws)
  from Cons.prems have "Suc i + length ws \<le> dim1 a_projs" "Suc i + length ws \<le> length angles"
    by simp_all
  from Cons.IH[OF this] obtain ps sel where
    r: "threshold_loop a_projs angles thresh (Suc i) ws = Inr (ps, sel)" by blast
  from Cons.prems have i: "i < dim1 a_projs" "i < length angles" by simp_all
  show ?case using r i by (simp add: slice_tilt_def)
qed

lemma selected_nonempty:
  "i < length ws \<Longrightarrow> \<bar>ws ! i\<bar> > thresh \<Longrightarrow> selected ws thresh \<noteq> []"
proof -
  assume "i < length ws" "\<bar>ws ! i\<bar> > thresh"
  then have "i \<in> set (selected ws thresh)" by (simp add: selected_def)
  then show ?thesis by auto
qed

lemma recon_step_ok:
  assumes nn: "fst nn \<noteq> 0"
    and len: "length ws \<le> dim1 a_projs" "length ws \<le> length angles"
    and sel: "selected ws thresh \<noteq> []"
    and total: "\<And>b a vecs opts. \<exists>r b'. generate_reconstruction B b a vecs opts = (Inr r, b')"
  shows "\<exists>r b'. recon_step B b a_projs ws angles (p1, p2, nn) thresh opts = (Inr r, b')"
proof -
  from threshold_loop_ok[of 0 ws a_projs angles thresh] len obtain ps sl where
    t: "threshold_loop a_projs angles thresh 0 ws = Inr (ps, sl)" by auto
  from threshold_loop_selected[OF t] have "length (map Inr ps :: (error + array2) list)
      = length (map (\<lambda>j. slice_tilt a_projs (0 + j)) (selected ws thresh))"
    by simp
  then have "ps \<noteq> []" using sel by auto
  then obtain st where st: "np_transpose_102 ps = Inr st"
    by (simp add: np_transpose_102_def)
  from total[of b st "generate_vectors sl" opts] obtain r b' where
    g: "generate_reconstruction B b st (generate_vectors sl) opts = (Inr r, b')" by blast
  show ?thesis using nn t st g by (simp add: recon_step_def)
qed

lemma recon_three_ok:
  assumes nn: "fst nn \<noteq> 0"
    and ws: "ws \<noteq> []" "\<forall>w \<in> set ws. length w = 3" "length ws \<le> length angles"
    and dims: "length ws \<le> dim1 ax" "length ws \<le> dim1 ay" "length ws \<le> dim1 az"
    and sel: "\<And>k. k < 3 \<Longrightarrow> selected (column ws k) thresh \<noteq> []"
    and total: "\<And>b a vecs opts. \<exists>r b'. generate_reconstruction B b a vecs opts = (Inr r, b')"
  shows "\<exists>r b'. recon_three B b ax ay az ws angles (p1, p2, nn) thresh opts = (Inr r, b')"
proof -
  have col: "np_col ws k = Inr (column ws k)" "length (column ws k) = length ws" if "k < 3" for k
    using ws that by (auto simp: np_col_def column_def)
  from recon_step_ok[OF nn _ _ sel[of 0] total, of ax angles b p1 p2 opts] col(2)[of 0] dims ws(3)
  obtain rx b1 where
    x: "recon_step B b ax (column ws 0) angles (p1, p2, nn) thresh opts = (Inr rx, b1)" by auto
  from recon_step_ok[OF nn _ _ sel[of 1] total, of ay angles b1 p1 p2 opts] col(2)[of 1] dims ws(3)
  obtain ry b2 where
    y: "recon_step B b1 ay (column ws 1) angles (p1, p2, nn) thresh opts = (Inr ry, b2)" by auto
  from recon_step_ok[OF nn _ _ sel[of 2] total, of az angles b2 p1 p2 opts] col(2)[of 2] dims ws(3)
  obtain rz b3 where
    z: "recon_step B b2 az (column ws 2) angles (p1, p2, nn) thresh opts = (Inr rz, b3)" by auto
  show ?thesis using x y z col(1)[of 0] col(1)[of 1] col(1)[of 2]
    by (simp add: recon_three_def)
qed

lemma py_index_in_set:
  "i < length xs \<Longrightarrow> \<exists>x \<in> set xs. py_index xs (- (int i + 1)) = Inr x"
  using py_index_from_end[of i xs] by (auto simp del: of_nat_add)

lemma major_loop_ok:
  assumes phi0: "phi0 \<noteq> 0" and nn: "fst nn \<noteq> 0"
    and ws: "ws \<noteq> []" "\<forall>w \<in> set ws. length w = 3" "length ws = dim1 phase_projs"
            "length ws \<le> length angles"
    and sel: "\<And>th k. th \<in> set pts \<Longrightarrow> k < 3 \<Longrightarrow> selected (column ws k) th \<noteq> []"
    and total: "\<And>b a vecs opts. \<exists>r b'. generate_reconstruction B b a vecs opts = (Inr r, b')"
    and proj: "\<And>b x y z. \<exists>px py pz b'.
        generate_A_projection_fast B b x y z angles (p1, p2, nn) = (Inr (px, py, pz), b')
        \<and> dim0 (pad n_pad px) = dim0 phase_projs \<and> dim1 (pad n_pad px) = dim1 phase_projs
        \<and> dim2 (pad n_pad px) = dim2 phase_projs
        \<and> dim0 (pad n_pad py) = dim0 phase_projs \<and> dim1 (pad n_pad py) = dim1 phase_projs
        \<and> dim2 (pad n_pad py) = dim2 phase_projs
        \<and> dim0 (pad n_pad pz) = dim0 phase_projs \<and> dim1 (pad n_pad pz) = dim1 phase_projs
        \<and> dim2 (pad n_pad pz) = dim2 phase_projs"
  shows "\<forall>i \<in> set is. i < length pts \<Longrightarrow>
         \<exists>v used' b'. major_loop B phi0 phase_projs angles (p1, p2, nn) n_pad opts ws pts is
                         recon used b = ((Inr v, used'), b')"
proof (induction "is" arbitrary: recon used b)
  case Nil
  show ?case by (cases recon) auto
next
  case (Cons i "is")
  obtain Ax Ay Az where recon: "recon = (Ax, Ay, Az)" by (cases recon) auto
  from Cons.prems have "i < length pts" by simp
  from py_index_in_set[OF this] obtain thresh where
    th: "thresh \<in> set pts" "py_index pts (- (int i + 1)) = Inr thresh" by blast
  from proj[of b "crop n_pad Ax" "crop n_pad Ay" "crop n_pad Az"] obtain px py pz b1 where
    pr: "generate_A_projection_fast B b (crop n_pad Ax) (crop n_pad Ay) (crop n_pad Az)
           angles (p1, p2, nn) = (Inr (px, py, pz), b1)"
    and dx: "dim0 (pad n_pad px) = dim0 phase_projs" "dim1 (pad n_pad px) = dim1 phase_projs"
            "dim2 (pad n_pad px) = dim2 phase_projs"
    and dy: "dim0 (pad n_pad py) = dim0 phase_projs" "dim1 (pad n_pad py) = dim1 phase_projs"
            "dim2 (pad n_pad py) = dim2 phase_projs"
    and dz: "dim0 (pad n_pad pz) = dim0 phase_projs" "dim1 (pad n_pad pz) = dim1 phase_projs"
            "dim2 (pad n_pad pz) = dim2 phase_projs"
    by blast
  from update_weighted_proj_data_ok[OF phi0 ws(1,2,3) dx dy dz] obtain wx wy wz where
    up: "update_weighted_proj_data phi0 phase_projs (pad n_pad px) (pad n_pad py)
           (pad n_pad pz) ws = Inr (wx, wy, wz)"
    and dw: "dim1 wx = dim1 phase_projs" "dim1 wy = dim1 phase_projs" "dim1 wz = dim1 phase_projs"
    by blast
  have le: "length ws \<le> dim1 wx" "length ws \<le> dim1 wy" "length ws \<le> dim1 wz"
    using dw ws(3) by simp_all
  from recon_three_ok[OF nn ws(1,2,4) le sel[OF th(1)] total, of b1 p1 p2 opts]
  obtain recon' b2 where
    rt: "recon_three B b1 wx wy wz ws angles (p1, p2, nn) thresh opts = (Inr recon', b2)"
    by blast
  from Cons.prems have "\<forall>i \<in> set is. i < length pts" by simp
  from Cons.IH[OF this, of recon' "used @ [thresh]" "astra_clear B b2"]
  show ?case using recon th(2) pr up rt by simp
qed

lemma np_linspace_upper:
  assumes "tmin \<le> tmax" "np_linspace tmin tmax (IntCount m) = Inr pts"
  shows "\<forall>x \<in> set pts. x \<le> tmax"
proof (cases "m = 1")
  case True
  with assms show ?thesis by (auto simp: np_linspace_def)
next
  case False
  show ?thesis
  proof
    fix x assume x: "x \<in> set pts"
    from assms(2) False have m: "0 \<le> m"
      and pts: "pts = map (\<lambda>i. tmin + real i * ((tmax - tmin) / real_of_int (m - 1))) [0..<nat m]"
      by (auto simp: np_linspace_def split: if_splits)
    from x pts obtain i where i: "i < nat m"
      "x = tmin + real i * ((tmax - tmin) / real_of_int (m - 1))" by auto
    from i(1) m False have m2: "2 \<le> m" by linarith
    have "real i \<le> real_of_int (m - 1)" using i(1) by linarith
    moreover have "0 \<le> (tmax - tmin) / real_of_int (m - 1)" using assms(1) m2 by simp
    ultimately have "real i * ((tmax - tmin) / real_of_int (m - 1))
        \<le> real_of_int (m - 1) * ((tmax - tmin) / real_of_int (m - 1))"
      by (rule mult_right_mono)
    also have "\<dots> = tmax - tmin" using m2 by simp
    finally show "x \<le> tmax" using i(2) by simp
  qed
qed

lemma selected_mono:
  "selected ws hi \<noteq> [] \<Longrightarrow> lo \<le> hi \<Longrightarrow> selected ws lo \<noteq> []"
proof -
  assume "selected ws hi \<noteq> []" "lo \<le> hi"
  then obtain i where "i \<in> set (selected ws hi)" by (cases "selected ws hi") auto
  then have "i \<in> set (selected ws lo)" using \<open>lo \<le> hi\<close> by (auto simp: selected_def)
  then show ?thesis by auto
qed

lemma A_contribution_length: "length (A_contribution a) = 3"
  by (cases a) (simp add: A_contribution_closed)

text \<open>
  The whole algorithm returns, and has used the thresholds of \<open>thresholds\<close>, when the
  flux quantum and the first voxel count are not zero, the phase stack has one tilt
  for each angle, every component has an angle whose absolute weight exceeds \<open>tmax\<close>,
  the backend returns at every call, and its projections, once padded, have the shape
  of the phase stack.
\<close>

lemma iterative_update_algorithm_ok:
  assumes phi0: "phi0 \<noteq> 0" and nn: "fst nn \<noteq> 0"
    and angles: "angles \<noteq> []" "length angles = dim1 phase_projs"
    and n: "1 \<le> n_full_iter" and le: "tmin \<le> tmax"
    and sel: "\<And>k. k < 3 \<Longrightarrow> selected (column (calculate_A_contributions angles) k) tmax \<noteq> []"
    and total: "\<And>b a vecs opts. \<exists>r b'. generate_reconstruction B b a vecs opts = (Inr r, b')"
    and proj: "\<And>b x y z. \<exists>px py pz b'.
        generate_A_projection_fast B b x y z angles (p1, p2, nn) = (Inr (px, py, pz), b')
        \<and> dim0 (pad n_pad px) = dim0 phase_projs \<and> dim1 (pad n_pad px) = dim1 phase_projs
        \<and> dim2 (pad n_pad px) = dim2 phase_projs
        \<and> dim0 (pad n_pad py) = dim0 phase_projs \<and> dim1 (pad n_pad py) = dim1 phase_projs
        \<and> dim2 (pad n_pad py) = dim2 phase_projs
        \<and> dim0 (pad n_pad pz) = dim0 phase_projs \<and> dim1 (pad n_pad pz) = dim1 phase_projs
        \<and> dim2 (pad n_pad pz) = dim2 phase_projs"
  shows "\<exists>v ts b'. iterative_update_algorithm B b phi0 phase_projs angles (p1, p2, nn) n_pad
                       n_full_iter n_step_iter alg wt (tmin, tmax) callback = ((Inr v, ts), b')
                    \<and> thresholds n_full_iter (tmin, tmax) = Inr ts"
proof -
  let ?opts = "\<lparr>algorithm = alg, niter = n_step_iter, weight = wt, balance = 1,
                  steps = ''backtrack'', callback_freq = (if callback then 1 else 0)\<rparr>"
  let ?ws = "calculate_A_contributions angles"
  let ?z = "zeros_like phase_projs"
  have ws: "?ws \<noteq> []" "\<forall>w \<in> set ?ws. length w = 3" "length ?ws = dim1 phase_projs"
    "length ?ws \<le> length angles"
    using angles by (auto simp: calculate_A_contributions_def A_contribution_length)
  from np_linspace_length[of "n_full_iter - 1" tmin tmax] n obtain pts where
    p: "np_linspace tmin tmax (IntCount (n_full_iter - 1)) = Inr pts"
    "length pts = nat (n_full_iter - 1)"
    by auto
  have zd: "dim0 ?z = dim0 phase_projs" "dim1 ?z = dim1 phase_projs" "dim2 ?z = dim2 phase_projs"
    by (simp_all add: zeros_like_def)
  from update_weighted_proj_data_ok[OF phi0 ws(1,2,3) zd zd zd] obtain wx wy wz where
    up: "update_weighted_proj_data phi0 phase_projs ?z ?z ?z ?ws = Inr (wx, wy, wz)"
    and dw: "dim1 wx = dim1 phase_projs" "dim1 wy = dim1 phase_projs" "dim1 wz = dim1 phase_projs"
    by blast
  have lw: "length ?ws \<le> dim1 wx" "length ?ws \<le> dim1 wy" "length ?ws \<le> dim1 wz"
    using dw ws(3) by simp_all
  from recon_three_ok[OF nn ws(1,2,4) lw sel total, of b p1 p2 ?opts] obtain recon b1 where
    rt: "recon_three B b wx wy wz ?ws angles (p1, p2, nn) tmax ?opts = (Inr recon, b1)"
    by blast
  have sel': "selected (column ?ws k) th \<noteq> []" if "th \<in> set pts" "k < 3" for th k
    using selected_mono[OF sel[OF that(2)]] np_linspace_upper[OF le p(1)] that(1) by blast
  have idx: "\<forall>i \<in> set [0..<nat (n_full_iter - 1)]. i < length pts" using p(2) by simp
  from major_loop_ok[OF phi0 nn ws sel' total proj idx,
      where opts = ?opts and recon = recon and used = "[tmax]" and b = b1]
  obtain v ts b' where
    ml: "major_loop B phi0 phase_projs angles (p1, p2, nn) n_pad ?opts ?ws pts
           [0..<nat (n_full_iter - 1)] recon [tmax] b1 = ((Inr v, ts), b')"
    by blast
  have run: "iterative_update_algorithm B b phi0 phase_projs angles (p1, p2, nn) n_pad
               n_full_iter n_step_iter alg wt (tmin, tmax) callback = ((Inr v, ts), b')"
    using p(1) up rt ml by (simp add: iterative_update_algorithm_def Let_def)
  from iterative_update_algorithm_thresholds[OF run] run show ?thesis by blast
qed

subsection \<open>Runs on the counting backend\<close>

text \<open>
  Three angles, one for each component: at \<open>(0,0,0)\<close> the weight \<open>wz\<close> is 1, at \<open>(90,0,0)\<close>
  the weight \<open>wy\<close> is 1, and at \<open>(0,90,0)\<close> the weight \<open>wx\<close> is \<open>-1\<close>.  With them every
  component keeps an angle at every threshold up to \<open>7/10\<close>, and the algorithm returns
  for every number of major iterations.
\<close>

lemma example_weights:
  "A_contribution (0, 0, 0) ! 2 = 1" "A_contribution (90, 0, 0) ! 1 = 1"
  "A_contribution (0, 90, 0) ! 0 = - 1"
  by (simp_all add: A_contribution_closed deg_def)

lemma example_sel:
  assumes "k < 3"
  shows "selected (column (calculate_A_contributions [(0, 0, 0), (90, 0, 0), (0, 90, 0)]) k)
           (7 / 10) \<noteq> []"
proof -
  let ?ws = "calculate_A_contributions [(0, 0, 0), (90, 0, 0), (0, 90, 0)]"
  have len: "length (column ?ws j) = 3" for j
    by (simp add: column_def calculate_A_contributions_def)
  have nth: "column ?ws 0 ! 2 = - 1" "column ?ws 1 ! 1 = 1" "column ?ws 2 ! 0 = 1"
    using example_weights by (simp_all add: column_def calculate_A_contributions_def)
  have sel: "selected (column ?ws j) (7 / 10) \<noteq> []"
    if "i < length (column ?ws j)" "\<bar>column ?ws j ! i\<bar> > 7 / 10" for i j
    using that by (rule selected_nonempty)
  have "selected (column ?ws 0) (7 / 10) \<noteq> []"
    by (rule sel[of 2]) (insert len[of 0] nth(1), simp_all)
  moreover have "selected (column ?ws 1) (7 / 10) \<noteq> []"
    by (rule sel[of 1]) (insert len[of 1] nth(2), simp_all)
  moreover have "selected (column ?ws 2) (7 / 10) \<noteq> []"
    by (rule sel[of 0]) (insert len[of 2] nth(3), simp_all)
  moreover from assms have "k = 0 \<or> k = 1 \<or> k = 2" by arith
  ultimately show ?thesis by blast
qed

lemma example_total:
  "\<exists>r b'. generate_reconstruction counting_backend b a vecs opts = (Inr r, b')"
  by (simp add: counting_backend_def)

lemma example_proj:
  "\<exists>px py pz b'.
     generate_A_projection_fast counting_backend b x y z [(0, 0, 0), (90, 0, 0), (0, 90, 0)]
       ((0, 0, 0), (1, 1, 1), (1, 1, 1)) = (Inr (px, py, pz), b')
     \<and> dim0 (pad 0 px) = dim0 (zero_stack 3) \<and> dim1 (pad 0 px) = dim1 (zero_stack 3)
     \<and> dim2 (pad 0 px) = dim2 (zero_stack 3)
     \<and> dim0 (pad 0 py) = dim0 (zero_stack 3) \<and> dim1 (pad 0 py) = dim1 (zero_stack 3)
     \<and> dim2 (pad 0 py) = dim2 (zero_stack 3)
     \<and> dim0 (pad 0 pz) = dim0 (zero_stack 3) \<and> dim1 (pad 0 pz) = dim1 (zero_stack 3)
     \<and> dim2 (pad 0 pz) = dim2 (zero_stack 3)"
  by (simp add: counting_backend_def zero_stack_def pad_def)

lemma example_returns:
  assumes "1 \<le> n"
  shows "\<exists>v ts b'. iterative_update_algorithm counting_backend 0 1 (zero_stack 3)
             [(0, 0, 0), (90, 0, 0), (0, 90, 0)] ((0, 0, 0), (1, 1, 1), (1, 1, 1)) 0 n 5
             ''SIRT3D_CUDA'' (1 / 1000) (1 / 100, 7 / 10) False = ((Inr v, ts), b')
           \<and> thresholds n (1 / 100, 7 / 10) = Inr ts"
proof -
  let ?angles = "[(0, 0, 0), (90, 0, 0), (0, 90, 0)] :: angle list"
  have phi0: "(1::real) \<noteq> 0" and nn: "fst (1::real, 1::real, 1::real) \<noteq> 0" by simp_all
  have angles: "?angles \<noteq> []" "length ?angles = dim1 (zero_stack 3)"
    by (simp_all add: zero_stack_def)
  have le: "(1 / 100 :: real) \<le> 7 / 10" by simp
  from iterative_update_algorithm_ok[OF phi0 nn angles assms le example_sel example_total
      example_proj, where b = 0 and n_step_iter = 5 and alg = "''SIRT3D_CUDA''"
        and wt = "1 / 1000" and callback = False]
  show ?thesis by simp
qed

lemma thresholds_4: "thresholds 4 (1 / 100, 7 / 10) = Inr [7 / 10, 7 / 10, 71 / 200, 1 / 100]"
  by (simp add: thresholds_def np_linspace_def py_index_def upt_rec)

lemma example_run:
  "\<exists>v b'. iterative_update_algorithm counting_backend 0 1 (zero_stack 3)
             [(0, 0, 0), (90, 0, 0), (0, 90, 0)] ((0, 0, 0), (1, 1, 1), (1, 1, 1)) 0 4 5
             ''SIRT3D_CUDA'' (1 / 1000) (1 / 100, 7 / 10) False
           = ((Inr v, [7 / 10, 7 / 10, 71 / 200, 1 / 100]), b')"
  using example_returns[of 4] unfolding thresholds_4 by auto

text \<open>
  Claim C2 says that for \<open>n_full_iter = nmaj \<ge> 2\<close> the first major iteration uses \<open>tmax\<close>
  and the following ones use the values of the linear schedule in decreasing order, so
  that the second major iteration uses \<open>tmax\<close> again, as the comment of the source
  (\<^verbatim>\<open>Repeat t=tmax for nmaj=2\<close>) also says.  With \<open>n_full_iter = 2\<close> and the range
  \<open>(0.01, 0.7)\<close> the schedule \<^verbatim>\<open>np.linspace(tmin,tmax,1)\<close> is the one value \<open>tmin\<close>: the variable
  \<^verbatim>\<open>thresh\<close> takes the values \<open>0.7\<close> and \<open>0.01\<close>, and a run of the algorithm calls
  \<open>recon_step\<close> in its second major iteration with \<open>0.01\<close>, not with \<open>tmax\<close>.
\<close>

theorem second_iteration_uses_tmin:
  "thresholds 2 (1 / 100, 7 / 10) = Inr [7 / 10, 1 / 100]
   \<and> [7 / 10, 1 / 100 :: real] ! 1 \<noteq> 7 / 10
   \<and> (\<exists>v b'. iterative_update_algorithm counting_backend 0 1 (zero_stack 3)
             [(0, 0, 0), (90, 0, 0), (0, 90, 0)] ((0, 0, 0), (1, 1, 1), (1, 1, 1)) 0 2 5
             ''SIRT3D_CUDA'' (1 / 1000) (1 / 100, 7 / 10) False
           = ((Inr v, [7 / 10, 1 / 100]), b'))"
proof -
  have t: "thresholds 2 (1 / 100, 7 / 10) = Inr [7 / 10, 1 / 100]"
    by (rule thresholds_2)
  have r: "\<exists>v b'. iterative_update_algorithm counting_backend 0 1 (zero_stack 3)
             [(0, 0, 0), (90, 0, 0), (0, 90, 0)] ((0, 0, 0), (1, 1, 1), (1, 1, 1)) 0 2 5
             ''SIRT3D_CUDA'' (1 / 1000) (1 / 100, 7 / 10) False
           = ((Inr v, [7 / 10, 1 / 100]), b')"
    using example_returns[of 2] unfolding t by auto
  have n: "[7 / 10, 1 / 100 :: real] ! 1 \<noteq> 7 / 10" by simp
  from t n r show ?thesis by (intro conjI)
qed


end
